theory Spec2Isabelle
  imports Complex_Main "HOL-Library.Log_Nat" "HOL-Library.Multiset"
begin

section \<open>Thrown values and the error wrapper\<close>

text \<open>
  A JavaScript \<^verbatim>\<open>throw\<close> can carry any value. The wrapper of
  \<^verbatim>\<open>common/utils.ts\<close> tells instances of \<^verbatim>\<open>Error\<close> from everything else
  (\<^verbatim>\<open>err instanceof Error\<close>), so the model keeps the two apart.
  \<^verbatim>\<open>ContractError\<close> extends \<^verbatim>\<open>Error\<close>; its class lives in \<^verbatim>\<open>./types.js\<close>.

  Modelled from the spec: the class \<^verbatim>\<open>ContractError\<close> (its file is not part of the
  sources at hand) is "a single ContractError kind carrying the original message/stack and
  an optional caller-supplied error-code string". It is built by
  \<^verbatim>\<open>new ContractError(err, code)\<close> or \<^verbatim>\<open>new ContractError(err)\<close>; an absent code
  is \<open>None\<close>.
\<close>

datatype js_error =
    Error (message: string)
  | ContractError (original: js_error) (contractErrorCode: "string option")

datatype 'x thrown = Err js_error | NonError 'x

text \<open>
  \<^verbatim>\<open>
  export async function handleContractError<T>(
    func: () => Promise<T>,
    callback?: (err: Error) => string | null,
  ): Promise<T> {
    try {
      return await func();
    } catch (err: any) {
      if (err instanceof Error) {
        if (callback) {
          throw new ContractError(err, callback(err));
        }
        throw new ContractError(err);
      }
      throw err;
    }
  }
  \<close>
  The promise returned by \<^verbatim>\<open>func\<close> either fulfils (\<open>Inr\<close>) or rejects (\<open>Inl\<close>).
  The callback is ordinary JavaScript and may itself throw while the argument of
  \<^verbatim>\<open>new ContractError\<close> is evaluated; that throw leaves the \<^verbatim>\<open>catch\<close> block as it is.
\<close>

definition handleContractError ::
  "(unit \<Rightarrow> 'x thrown + 'a) \<Rightarrow> (js_error \<Rightarrow> 'x thrown + string option) option
    \<Rightarrow> 'x thrown + 'a" where
  "handleContractError func callback =
     (case func () of
        Inr v \<Rightarrow> Inr v
      | Inl (Err err) \<Rightarrow>
          (case callback of
             Some cb \<Rightarrow>
               (case cb err of
                  Inl t \<Rightarrow> Inl t
                | Inr code \<Rightarrow> Inl (Err (ContractError err code)))
           | None \<Rightarrow> Inl (Err (ContractError err None)))
      | Inl (NonError x) \<Rightarrow> Inl (NonError x))"

section \<open>Streams as loaded from the Aptos and EVM backends\<close>

text \<open>
  \<^verbatim>\<open>export enum StreamType { Stream = "stream", Vesting = "vesting", All = "all" }\<close> and
  \<^verbatim>\<open>export enum StreamDirection { Outgoing = "outgoing", Incoming = "incoming", All = "all" }\<close>
  (\<^verbatim>\<open>stream/types.ts\<close>).
\<close>

datatype StreamType = Type_Stream | Type_Vesting | Type_All

datatype StreamDirection = Outgoing | Incoming | Direction_All

text \<open>
  The Aptos resource as the node returns it: every number is a string
  (\<^verbatim>\<open>interface StreamResource\<close>). It has no cliff timestamp.
\<close>

record contract_signer_cap =
  account :: string

record StreamResource_fees =
  streamflow_fee :: string
  streamflow_fee_percentage :: string
  streamflow_fee_withdrawn :: string

record StreamResource_meta =
  automatic_withdrawal :: bool
  can_topup :: bool
  can_update_rate :: bool
  cancelable_by_recipient :: bool
  cancelable_by_sender :: bool
  contract_name :: string
  pausable :: bool
  transferable_by_recipient :: bool
  transferable_by_sender :: bool
  withdrawal_frequency :: string
  closed :: bool

record StreamResource =
  amount :: string
  amount_per_period :: string
  canceled_at :: string
  cliff_amount :: string
  closed :: bool
  contract_signer_cap :: contract_signer_cap
  created :: string
  current_pause_start :: string
  end_ts :: string
  fees :: StreamResource_fees
  funds_unlocked_at_last_rate_change :: string
  last_rate_change_time :: string
  last_withdrawn_at :: string
  meta :: StreamResource_meta
  pause_cumulative :: string
  period :: string
  recipient :: string
  sender :: string
  start :: string
  withdrawn :: string

text \<open>
  The EVM view result (\<^verbatim>\<open>interface StreamAbiResult\<close>): every number is an ethers
  \<^verbatim>\<open>BigNumber\<close>, here the type parameter \<open>'e\<close>. It has no cliff timestamp either.
\<close>

record 'e StreamAbiResult_fees =
  streamflow_fee_percentage :: 'e
  streamflow_fee :: 'e
  streamflow_fee_withdrawn :: 'e
  partner_fee_percentage :: 'e
  partner_fee :: 'e
  partner_fee_withdrawn :: 'e
  tx_fee :: 'e

record 'e StreamAbiResult_meta =
  automatic_withdrawal :: bool
  can_topup :: bool
  can_update_rate :: bool
  cancelable_by_recipient :: bool
  cancelable_by_sender :: bool
  contract_name :: string
  pausable :: bool
  transferable_by_recipient :: bool
  transferable_by_sender :: bool
  withdrawal_frequency :: 'e

record 'e StreamAbiResult =
  amount :: 'e
  amount_per_period :: 'e
  canceled_at :: 'e
  cliff_amount :: 'e
  closed :: bool
  created :: 'e
  current_pause_start :: 'e
  end_ts :: 'e
  fees :: "'e StreamAbiResult_fees"
  funds_unlocked_at_last_rate_change :: 'e
  last_rate_change_time :: 'e
  last_withdrawn_at :: 'e
  meta :: "'e StreamAbiResult_meta"
  pause_cumulative :: 'e
  period :: 'e
  recipient :: string
  sender :: string
  partner :: string
  start :: 'e
  token :: string
  withdrawn :: 'e

text \<open>
  The fields of \<^verbatim>\<open>class Contract implements Stream\<close> (Aptos) and of
  \<^verbatim>\<open>class EvmContract implements Stream\<close>. The two classes declare the same fields;
  \<^verbatim>\<open>EvmContract\<close> adds \<^verbatim>\<open>type\<close>. \<open>'n\<close> is the type of a JavaScript number,
  \<open>'b\<close> the type of a big number (\<^verbatim>\<open>BN\<close> on Aptos, \<^verbatim>\<open>BigNumber\<close> on EVM) and
  \<open>'p\<close> the type of \<^verbatim>\<open>pauseCumulative\<close> (a number on Aptos, a \<^verbatim>\<open>BigNumber\<close> on
  EVM). The field \<^verbatim>\<open>end\<close> is written \<open>end_ts\<close>, \<^verbatim>\<open>closed\<close> is
  \<open>closed_flag\<close> and \<^verbatim>\<open>type\<close> is \<open>stream_type\<close>.
\<close>

record ('n, 'b, 'p) Contract =
  magic :: 'n
  version :: 'n
  createdAt :: 'n
  withdrawnAmount :: 'b
  canceledAt :: 'n
  end_ts :: 'n
  lastWithdrawnAt :: 'n
  sender :: string
  senderTokens :: string
  recipient :: string
  recipientTokens :: string
  mint :: string
  escrowTokens :: string
  streamflowTreasury :: string
  streamflowTreasuryTokens :: string
  streamflowFeeTotal :: 'b
  streamflowFeeWithdrawn :: 'b
  streamflowFeePercent :: 'n
  partnerFeeTotal :: 'b
  partnerFeeWithdrawn :: 'b
  partnerFeePercent :: 'n
  partner :: string
  partnerTokens :: string
  start :: 'n
  depositedAmount :: 'b
  period :: 'n
  amountPerPeriod :: 'b
  cliff :: 'n
  cliffAmount :: 'b
  cancelableBySender :: bool
  cancelableByRecipient :: bool
  automaticWithdrawal :: bool
  transferableBySender :: bool
  transferableByRecipient :: bool
  canTopup :: bool
  name :: string
  withdrawalFrequency :: 'n
  closed_flag :: bool
  currentPauseStart :: 'n
  pauseCumulative :: 'p
  lastRateChangeTime :: 'n
  fundsUnlockedAtLastRateChange :: 'b

record ('n, 'b, 'p) EvmContract = "('n, 'b, 'p) Contract" +
  stream_type :: "StreamType option"

text \<open>
  The library calls of the Aptos constructor are parameters of the model:
  \<^verbatim>\<open>parseInt\<close>, the division of two numbers, \<^verbatim>\<open>new BN(string)\<close>, and
  \<^verbatim>\<open>Buffer.from(name, "hex").toString("utf8")\<close>. What the constructor does with their
  results is the model.
\<close>

record ('n, 'b) aptos_lib =
  parseInt :: "string \<Rightarrow> 'n"
  number_div :: "'n \<Rightarrow> 'n \<Rightarrow> 'n"
  BN_of_string :: "string \<Rightarrow> 'b"
  hex_to_utf8 :: "string \<Rightarrow> string"

text \<open>\<^verbatim>\<open>s.replace("0x", "")\<close>: the first occurrence of the pattern is removed.\<close>

fun replace_0x :: "string \<Rightarrow> string" where
  "replace_0x [] = []"
| "replace_0x (c # cs) =
     (if take 2 (c # cs) = ''0x'' then drop 2 (c # cs) else c # replace_0x cs)"

text \<open>
  \<^verbatim>\<open>
  constructor(stream: StreamResource, tokenId: string) {
    this.magic = 0;
    this.version = 0;
    this.createdAt = parseInt(stream.created);
    ...
    this.start = parseInt(stream.start);
    this.depositedAmount = new BN(stream.amount);
    this.period = parseInt(stream.period);
    this.amountPerPeriod = new BN(stream.amount_per_period);
    this.cliff = parseInt(stream.start);
    this.cliffAmount = new BN(stream.cliff_amount);
    ...
    this.closed = stream.meta.closed;
    ...
  }
  \<close>
\<close>

definition Contract_new ::
  "('n::{zero,numeral}, 'b::zero) aptos_lib \<Rightarrow> StreamResource \<Rightarrow> string
    \<Rightarrow> ('n, 'b, 'n) Contract" where
  "Contract_new lib stream tokenId =
     \<lparr> magic = 0,
       version = 0,
       createdAt = parseInt lib (StreamResource.created stream),
       withdrawnAmount = BN_of_string lib (StreamResource.withdrawn stream),
       canceledAt = parseInt lib (StreamResource.canceled_at stream),
       end_ts = parseInt lib (StreamResource.end_ts stream),
       lastWithdrawnAt = parseInt lib (StreamResource.last_withdrawn_at stream),
       sender = StreamResource.sender stream,
       senderTokens = StreamResource.sender stream,
       recipient = StreamResource.recipient stream,
       recipientTokens = StreamResource.recipient stream,
       mint = tokenId,
       escrowTokens = [],
       streamflowTreasury = [],
       streamflowTreasuryTokens = [],
       streamflowFeeTotal = 0,
       streamflowFeeWithdrawn = 0,
       streamflowFeePercent =
         number_div lib
           (parseInt lib
              (StreamResource_fees.streamflow_fee_percentage (StreamResource.fees stream)))
           10000,
       partnerFeeTotal = 0,
       partnerFeeWithdrawn = 0,
       partnerFeePercent = 0,
       partner = [],
       partnerTokens = [],
       start = parseInt lib (StreamResource.start stream),
       depositedAmount = BN_of_string lib (StreamResource.amount stream),
       period = parseInt lib (StreamResource.period stream),
       amountPerPeriod = BN_of_string lib (StreamResource.amount_per_period stream),
       cliff = parseInt lib (StreamResource.start stream),
       cliffAmount = BN_of_string lib (StreamResource.cliff_amount stream),
       cancelableBySender = StreamResource_meta.cancelable_by_sender (StreamResource.meta stream),
       cancelableByRecipient =
         StreamResource_meta.cancelable_by_recipient (StreamResource.meta stream),
       automaticWithdrawal = StreamResource_meta.automatic_withdrawal (StreamResource.meta stream),
       transferableBySender =
         StreamResource_meta.transferable_by_sender (StreamResource.meta stream),
       transferableByRecipient =
         StreamResource_meta.transferable_by_recipient (StreamResource.meta stream),
       canTopup = StreamResource_meta.can_topup (StreamResource.meta stream),
       name =
         hex_to_utf8 lib
           (replace_0x (StreamResource_meta.contract_name (StreamResource.meta stream))),
       withdrawalFrequency =
         parseInt lib (StreamResource_meta.withdrawal_frequency (StreamResource.meta stream)),
       closed_flag = StreamResource_meta.closed (StreamResource.meta stream),
       currentPauseStart = parseInt lib (StreamResource.current_pause_start stream),
       pauseCumulative = parseInt lib (StreamResource.pause_cumulative stream),
       lastRateChangeTime = parseInt lib (StreamResource.last_rate_change_time stream),
       fundsUnlockedAtLastRateChange =
         BN_of_string lib (StreamResource.funds_unlocked_at_last_rate_change stream) \<rparr>"

text \<open>
  The library calls of the EVM constructor, again parameters: \<^verbatim>\<open>toNumber()\<close> of an ethers
  \<^verbatim>\<open>BigNumber\<close> (it throws when the value is no safe integer), its \<^verbatim>\<open>toString()\<close>,
  \<^verbatim>\<open>BigNumber(string)\<close> of bignumber.js, the division of two numbers,
  \<^verbatim>\<open>String.prototype.toLowerCase\<close>, and \<^verbatim>\<open>buildStreamType\<close> of
  \<^verbatim>\<open>../common/contractUtils\<close>, which reads the object under construction.
\<close>

record ('e, 'n, 'b, 'x) evm_lib =
  toNumber :: "'e \<Rightarrow> 'x thrown + 'n"
  toString :: "'e \<Rightarrow> string"
  BigNumber_of_string :: "string \<Rightarrow> 'b"
  evm_number_div :: "'n \<Rightarrow> 'n \<Rightarrow> 'n"
  toLowerCase :: "string \<Rightarrow> string"
  buildStreamType :: "('n, 'b, 'b) EvmContract \<Rightarrow> StreamType"

text \<open>A throwing call ends the constructor; the next statement runs on its value otherwise.\<close>

definition bind_thrown :: "'t + 'a \<Rightarrow> ('a \<Rightarrow> 't + 'c) \<Rightarrow> 't + 'c" where
  "bind_thrown m f = (case m of Inl t \<Rightarrow> Inl t | Inr v \<Rightarrow> f v)"

text \<open>
  \<^verbatim>\<open>
  constructor(stream: StreamAbiResult) {
    this.magic = 0;
    this.version = 0;
    this.createdAt = stream.created.toNumber();
    this.withdrawnAmount = BigNumber(stream.withdrawn.toString());
    ...
    this.start = stream.start.toNumber();
    this.depositedAmount = BigNumber(stream.amount.toString());
    this.period = stream.period.toNumber();
    this.amountPerPeriod = BigNumber(stream.amount_per_period.toString());
    this.cliff = stream.start.toNumber();
    this.cliffAmount = BigNumber(stream.cliff_amount.toString());
    ...
    this.type = buildStreamType(this);
  }
  \<close>
  The \<^verbatim>\<open>toNumber()\<close> calls run in the order of the assignments; \<^verbatim>\<open>this.type\<close> is
  still undefined (\<open>None\<close>) when \<^verbatim>\<open>buildStreamType\<close> reads the object.
\<close>

definition EvmContract_new ::
  "('e, 'n::{zero,numeral}, 'b::zero, 'x) evm_lib \<Rightarrow> 'e StreamAbiResult
    \<Rightarrow> 'x thrown + ('n, 'b, 'b) EvmContract" where
  "EvmContract_new lib stream =
     bind_thrown (toNumber lib (StreamAbiResult.created stream)) (\<lambda>v_createdAt.
     bind_thrown (toNumber lib (StreamAbiResult.canceled_at stream)) (\<lambda>v_canceledAt.
     bind_thrown (toNumber lib (StreamAbiResult.end_ts stream)) (\<lambda>v_end.
     bind_thrown (toNumber lib (StreamAbiResult.last_withdrawn_at stream)) (\<lambda>v_lastWithdrawnAt.
     bind_thrown (toNumber lib
        (StreamAbiResult_fees.streamflow_fee_percentage (StreamAbiResult.fees stream)))
        (\<lambda>v_feePercentage.
     bind_thrown (toNumber lib (StreamAbiResult.start stream)) (\<lambda>v_start.
     bind_thrown (toNumber lib (StreamAbiResult.period stream)) (\<lambda>v_period.
     bind_thrown (toNumber lib (StreamAbiResult.start stream)) (\<lambda>v_cliff.
     bind_thrown (toNumber lib
        (StreamAbiResult_meta.withdrawal_frequency (StreamAbiResult.meta stream)))
        (\<lambda>v_withdrawalFrequency.
     bind_thrown (toNumber lib (StreamAbiResult.current_pause_start stream))
        (\<lambda>v_currentPauseStart.
     bind_thrown (toNumber lib (StreamAbiResult.last_rate_change_time stream))
        (\<lambda>v_lastRateChangeTime.
     let this =
       \<lparr> magic = 0,
         version = 0,
         createdAt = v_createdAt,
         withdrawnAmount =
           BigNumber_of_string lib (toString lib (StreamAbiResult.withdrawn stream)),
         canceledAt = v_canceledAt,
         end_ts = v_end,
         lastWithdrawnAt = v_lastWithdrawnAt,
         sender = StreamAbiResult.sender stream,
         senderTokens = StreamAbiResult.sender stream,
         recipient = StreamAbiResult.recipient stream,
         recipientTokens = StreamAbiResult.recipient stream,
         mint = toLowerCase lib (StreamAbiResult.token stream),
         escrowTokens = [],
         streamflowTreasury = [],
         streamflowTreasuryTokens = [],
         streamflowFeeTotal =
           BigNumber_of_string lib
             (toString lib (StreamAbiResult_fees.streamflow_fee (StreamAbiResult.fees stream))),
         streamflowFeeWithdrawn =
           BigNumber_of_string lib
             (toString lib
                (StreamAbiResult_fees.streamflow_fee_withdrawn (StreamAbiResult.fees stream))),
         streamflowFeePercent = evm_number_div lib v_feePercentage 10000,
         partnerFeeTotal = 0,
         partnerFeeWithdrawn = 0,
         partnerFeePercent = 0,
         partner = [],
         partnerTokens = [],
         start = v_start,
         depositedAmount = BigNumber_of_string lib (toString lib (StreamAbiResult.amount stream)),
         period = v_period,
         amountPerPeriod =
           BigNumber_of_string lib (toString lib (StreamAbiResult.amount_per_period stream)),
         cliff = v_cliff,
         cliffAmount =
           BigNumber_of_string lib (toString lib (StreamAbiResult.cliff_amount stream)),
         cancelableBySender =
           StreamAbiResult_meta.cancelable_by_sender (StreamAbiResult.meta stream),
         cancelableByRecipient =
           StreamAbiResult_meta.cancelable_by_recipient (StreamAbiResult.meta stream),
         automaticWithdrawal =
           StreamAbiResult_meta.automatic_withdrawal (StreamAbiResult.meta stream),
         transferableBySender =
           StreamAbiResult_meta.transferable_by_sender (StreamAbiResult.meta stream),
         transferableByRecipient =
           StreamAbiResult_meta.transferable_by_recipient (StreamAbiResult.meta stream),
         canTopup = StreamAbiResult_meta.can_topup (StreamAbiResult.meta stream),
         name = StreamAbiResult_meta.contract_name (StreamAbiResult.meta stream),
         withdrawalFrequency = v_withdrawalFrequency,
         closed_flag = StreamAbiResult.closed stream,
         currentPauseStart = v_currentPauseStart,
         pauseCumulative =
           BigNumber_of_string lib (toString lib (StreamAbiResult.pause_cumulative stream)),
         lastRateChangeTime = v_lastRateChangeTime,
         fundsUnlockedAtLastRateChange =
           BigNumber_of_string lib
             (toString lib (StreamAbiResult.funds_unlocked_at_last_rate_change stream)),
         stream_type = None \<rparr>
     in Inr (this\<lparr>stream_type := Some (buildStreamType lib this)\<rparr>))))))))))))"

section \<open>The unlock calculation\<close>

text \<open>
  Modelled from the spec: \<^verbatim>\<open>calculateUnlocked\<close> of \<^verbatim>\<open>../common/ContractUtils\<close>, which
  the Aptos \<^verbatim>\<open>Contract.unlocked\<close> calls with nine positional arguments, is not among the
  sources at hand. The spec's unlock calculator, on the values this call passes (no
  cancellation time, no closed flag and no pause bookkeeping reach the helper): at or after
  \<open>end\<close> the deposit; before the cliff nothing; a period of 0 unlocks the whole deposit once
  the cliff is reached; otherwise whole periods elapsed since the reference point (the last
  rate change when it is later than the cliff, the cliff otherwise, a negative elapsed time
  clamped to 0) times the amount per period, on top of the baseline (the funds unlocked at
  the last rate change when there was one, the cliff amount otherwise), capped by the
  deposit. Timestamps are integer unix seconds, amounts are unsigned integers of smallest
  units.
\<close>

definition calculateUnlocked ::
  "nat \<Rightarrow> int \<Rightarrow> nat \<Rightarrow> int \<Rightarrow> int \<Rightarrow> int \<Rightarrow> int \<Rightarrow> nat \<Rightarrow> nat \<Rightarrow> nat" where
  "calculateUnlocked v_depositedAmount v_cliff v_cliffAmount v_end currentTimestamp
       v_lastRateChangeTime v_period v_amountPerPeriod v_fundsUnlockedAtLastRateChange =
     (if currentTimestamp \<ge> v_end then v_depositedAmount
      else if currentTimestamp < v_cliff then 0
      else if v_period = 0 then v_depositedAmount
      else
        let referencePoint =
              (if v_lastRateChangeTime > v_cliff then v_lastRateChangeTime else v_cliff);
            elapsed = max 0 (currentTimestamp - referencePoint);
            elapsedPeriods = nat (elapsed div v_period);
            baseline =
              (if v_lastRateChangeTime > 0 then v_fundsUnlockedAtLastRateChange
               else v_cliffAmount)
        in min (baseline + elapsedPeriods * v_amountPerPeriod) v_depositedAmount)"

text \<open>
  \<^verbatim>\<open>
  unlocked(currentTimestamp: number): BN {
    return calculateUnlocked(
      this.depositedAmount, this.cliff, this.cliffAmount, this.end, currentTimestamp,
      this.lastRateChangeTime, this.period, this.amountPerPeriod,
      this.fundsUnlockedAtLastRateChange
    );
  }
  \<close>
\<close>

definition Contract_unlocked :: "(int, nat, int) Contract \<Rightarrow> int \<Rightarrow> nat" where
  "Contract_unlocked this currentTimestamp =
     calculateUnlocked (depositedAmount this) (cliff this) (cliffAmount this) (end_ts this)
       currentTimestamp (lastRateChangeTime this) (period this) (amountPerPeriod this)
       (fundsUnlockedAtLastRateChange this)"

text \<open>
  Modelled from the spec: \<^verbatim>\<open>calculateUnlockedAmount\<close> of \<^verbatim>\<open>../common/contractUtils\<close>,
  which \<^verbatim>\<open>EvmContract.unlocked\<close> calls with the whole object and the current timestamp, is
  not among the sources at hand either. It is the spec's unlock calculator in full: the
  effective time is the current time, or the cancellation time when the stream was
  cancelled earlier (\<open>canceledAt\<close> is 0 when it was not); a closed stream and a time at or
  after \<open>end\<close> give the deposit; before the cliff nothing; a period of 0 unlocks the whole
  deposit once the cliff is reached; the time spent paused (\<open>pauseCumulative\<close>, and the
  running pause when \<open>currentPauseStart\<close> is set) is subtracted from the elapsed time, which
  is clamped to 0; the rest as above.
\<close>

definition calculateUnlockedAmount ::
  "(int, nat, nat, 'z) Contract_scheme \<Rightarrow> int \<Rightarrow> nat" where
  "calculateUnlockedAmount stream currentTimestamp =
     (let t = (if canceledAt stream > 0 then min currentTimestamp (canceledAt stream)
               else currentTimestamp)
      in
        if closed_flag stream \<or> t \<ge> end_ts stream then depositedAmount stream
        else if t < cliff stream then 0
        else if period stream = 0 then depositedAmount stream
        else
          let referencePoint =
                (if lastRateChangeTime stream > cliff stream then lastRateChangeTime stream
                 else cliff stream);
              paused =
                int (pauseCumulative stream) +
                (if currentPauseStart stream > 0
                 then currentTimestamp - currentPauseStart stream else 0);
              elapsed = max 0 (t - referencePoint - paused);
              elapsedPeriods = nat (elapsed div period stream);
              baseline =
                (if lastRateChangeTime stream > 0 then fundsUnlockedAtLastRateChange stream
                 else cliffAmount stream)
          in min (baseline + elapsedPeriods * amountPerPeriod stream)
               (depositedAmount stream))"

text \<open>
  \<^verbatim>\<open>
  unlocked(currentTimestamp: number): BigNumber {
    return calculateUnlockedAmount({ ...this, currentTimestamp });
  }
  \<close>
\<close>

definition EvmContract_unlocked :: "(int, nat, nat) EvmContract \<Rightarrow> int \<Rightarrow> nat" where
  "EvmContract_unlocked this currentTimestamp = calculateUnlockedAmount this currentTimestamp"

section \<open>Sample instances of the library parameters\<close>

text \<open>
  Decimal digit strings read as naturals: enough of \<^verbatim>\<open>parseInt\<close>, \<^verbatim>\<open>new BN(string)\<close>
  and \<^verbatim>\<open>BigNumber(string)\<close> to run the constructors on well-formed inputs.
\<close>

definition digit_value :: "char \<Rightarrow> nat" where
  "digit_value c = of_char c - 48"

definition decimal_value :: "string \<Rightarrow> nat" where
  "decimal_value s = foldl (\<lambda>a c. 10 * a + digit_value c) 0 s"

definition sample_aptos_lib :: "(rat, nat) aptos_lib" where
  "sample_aptos_lib =
     \<lparr> parseInt = (\<lambda>s. of_nat (decimal_value s)),
       number_div = (\<lambda>a b. a / b),
       BN_of_string = decimal_value,
       hex_to_utf8 = (\<lambda>s. s) \<rparr>"

definition sample_resource :: StreamResource where
  "sample_resource =
     \<lparr> StreamResource.amount = ''1000'',
       StreamResource.amount_per_period = ''50'',
       StreamResource.canceled_at = ''0'',
       StreamResource.cliff_amount = ''100'',
       StreamResource.closed = False,
       StreamResource.contract_signer_cap = \<lparr> account = ''0xabc'' \<rparr>,
       StreamResource.created = ''900'',
       StreamResource.current_pause_start = ''0'',
       StreamResource.end_ts = ''2800'',
       StreamResource.fees =
         \<lparr> StreamResource_fees.streamflow_fee = ''0'',
           StreamResource_fees.streamflow_fee_percentage = ''25'',
           StreamResource_fees.streamflow_fee_withdrawn = ''0'' \<rparr>,
       StreamResource.funds_unlocked_at_last_rate_change = ''0'',
       StreamResource.last_rate_change_time = ''0'',
       StreamResource.last_withdrawn_at = ''0'',
       StreamResource.meta =
         \<lparr> StreamResource_meta.automatic_withdrawal = False,
           StreamResource_meta.can_topup = False,
           StreamResource_meta.can_update_rate = False,
           StreamResource_meta.cancelable_by_recipient = False,
           StreamResource_meta.cancelable_by_sender = True,
           StreamResource_meta.contract_name = ''0x61'',
           StreamResource_meta.pausable = False,
           StreamResource_meta.transferable_by_recipient = False,
           StreamResource_meta.transferable_by_sender = True,
           StreamResource_meta.withdrawal_frequency = ''0'',
           StreamResource_meta.closed = False \<rparr>,
       StreamResource.pause_cumulative = ''0'',
       StreamResource.period = ''100'',
       StreamResource.recipient = ''0x2'',
       StreamResource.sender = ''0x1'',
       StreamResource.start = ''1000'',
       StreamResource.withdrawn = ''0'' \<rparr>"

text \<open>
  For the EVM constructor an ethers \<^verbatim>\<open>BigNumber\<close> is a natural; \<^verbatim>\<open>toNumber()\<close> throws
  above \<open>2\<^sup>5\<^sup>3 - 1\<close>. The composition of \<^verbatim>\<open>toString()\<close> and \<^verbatim>\<open>BigNumber(string)\<close>
  keeps the value: the sample represents the intermediate string by a run of that many
  characters.
\<close>

definition sample_evm_lib :: "(nat, rat, nat, string) evm_lib" where
  "sample_evm_lib =
     \<lparr> toNumber = (\<lambda>e. if e \<le> 2 ^ 53 - 1 then Inr (of_nat e) else Inl (Err (Error ''overflow''))),
       toString = (\<lambda>e. replicate e CHR ''1''),
       BigNumber_of_string = length,
       evm_number_div = (\<lambda>a b. a / b),
       toLowerCase = (\<lambda>s. s),
       buildStreamType = (\<lambda>c. if canTopup c then Type_Stream else Type_Vesting) \<rparr>"

definition sample_abi_result :: "nat StreamAbiResult" where
  "sample_abi_result =
     \<lparr> StreamAbiResult.amount = 1000,
       StreamAbiResult.amount_per_period = 50,
       StreamAbiResult.canceled_at = 0,
       StreamAbiResult.cliff_amount = 100,
       StreamAbiResult.closed = False,
       StreamAbiResult.created = 900,
       StreamAbiResult.current_pause_start = 0,
       StreamAbiResult.end_ts = 2800,
       StreamAbiResult.fees =
         \<lparr> StreamAbiResult_fees.streamflow_fee_percentage = 25,
           StreamAbiResult_fees.streamflow_fee = 0,
           StreamAbiResult_fees.streamflow_fee_withdrawn = 0,
           StreamAbiResult_fees.partner_fee_percentage = 0,
           StreamAbiResult_fees.partner_fee = 0,
           StreamAbiResult_fees.partner_fee_withdrawn = 0,
           StreamAbiResult_fees.tx_fee = 0 \<rparr>,
       StreamAbiResult.funds_unlocked_at_last_rate_change = 0,
       StreamAbiResult.last_rate_change_time = 0,
       StreamAbiResult.last_withdrawn_at = 0,
       StreamAbiResult.meta =
         \<lparr> StreamAbiResult_meta.automatic_withdrawal = False,
           StreamAbiResult_meta.can_topup = False,
           StreamAbiResult_meta.can_update_rate = False,
           StreamAbiResult_meta.cancelable_by_recipient = False,
           StreamAbiResult_meta.cancelable_by_sender = True,
           StreamAbiResult_meta.contract_name = ''a'',
           StreamAbiResult_meta.pausable = False,
           StreamAbiResult_meta.transferable_by_recipient = False,
           StreamAbiResult_meta.transferable_by_sender = True,
           StreamAbiResult_meta.withdrawal_frequency = 0 \<rparr>,
       StreamAbiResult.pause_cumulative = 0,
       StreamAbiResult.period = 100,
       StreamAbiResult.recipient = ''0x2'',
       StreamAbiResult.sender = ''0x1'',
       StreamAbiResult.partner = ''0x3'',
       StreamAbiResult.start = 1000,
       StreamAbiResult.token = ''0xT'',
       StreamAbiResult.withdrawn = 0 \<rparr>"

section \<open>The Solana stream client: data\<close>

text \<open>
  A public key is known by its base58 text; \<^verbatim>\<open>new PublicKey(text)\<close> throws on a text that
  is no key. A sender or invoker is a wallet adapter, whose public key may not be available,
  or a key pair. \<^verbatim>\<open>isSignerWallet\<close> of \<^verbatim>\<open>./utils\<close> tells the two apart by capability.
\<close>

datatype PublicKey = PublicKey (toBase58: string)

datatype Keypair = Keypair (publicKey: PublicKey)

datatype Signer = WalletSigner "PublicKey option" | KeypairSigner Keypair

fun signer_publicKey :: "Signer \<Rightarrow> PublicKey option" where
  "signer_publicKey (WalletSigner pk) = pk"
| "signer_publicKey (KeypairSigner kp) = Some (publicKey kp)"

fun isSignerWallet :: "Signer \<Rightarrow> bool" where
  "isSignerWallet (WalletSigner pk) = True"
| "isSignerWallet (KeypairSigner kp) = False"

text \<open>
  The submission helper of \<^verbatim>\<open>./utils\<close> rejects with a plain object that names the
  recipient of the failed item (\<^verbatim>\<open>BatchItemError\<close>). A value thrown in the Solana client
  is therefore an \<^verbatim>\<open>Error\<close>, such an object, or anything else (\<open>'x\<close>).
\<close>

record BatchItemError =
  recipient :: string
  error :: string

type_synonym 'x failure = "(BatchItemError + 'x) thrown"

text \<open>\<^verbatim>\<open>NATIVE_MINT\<close> of \<^verbatim>\<open>@solana/spl-token\<close>, the mint of wrapped SOL.\<close>

definition NATIVE_MINT :: PublicKey where
  "NATIVE_MINT = PublicKey ''So11111111111111111111111111111111111111112''"

text \<open>
  The two arguments of \<^verbatim>\<open>createStreamInstruction\<close> (\<^verbatim>\<open>./instructions\<close>): the stream
  parameters, with every number already a \<^verbatim>\<open>BN\<close>, and the accounts. The library never
  looks inside an instruction, so the instruction is the record of what it was built from.
  Instructions built elsewhere (by \<^verbatim>\<open>prepareWrappedAccount\<close>) are values of \<open>'i\<close>.
\<close>

record CreateStreamInstructionData =
  start :: int
  depositedAmount :: int
  period :: int
  amountPerPeriod :: int
  cliff :: int
  cliffAmount :: int
  cancelableBySender :: bool
  cancelableByRecipient :: bool
  automaticWithdrawal :: bool
  transferableBySender :: bool
  transferableByRecipient :: bool
  canTopup :: bool
  name :: string
  withdrawFrequency :: int

record CreateStreamInstructionAccounts =
  sender :: PublicKey
  senderTokens :: PublicKey
  recipient :: PublicKey
  metadata :: PublicKey
  escrowTokens :: PublicKey
  recipientTokens :: PublicKey
  streamflowTreasury :: PublicKey
  streamflowTreasuryTokens :: PublicKey
  partner :: PublicKey
  partnerTokens :: PublicKey
  mint :: PublicKey
  feeOracle :: PublicKey
  rent :: PublicKey
  timelockProgram :: PublicKey
  tokenProgram :: PublicKey
  associatedTokenProgram :: PublicKey
  withdrawor :: PublicKey
  systemProgram :: PublicKey

datatype 'i TransactionInstruction =
    createStreamInstruction CreateStreamInstructionData PublicKey CreateStreamInstructionAccounts
  | OtherInstruction 'i

record blockhash_info =
  blockhash :: string
  lastValidBlockHeight :: nat

text \<open>
  A transaction: what \<^verbatim>\<open>new Transaction({feePayer, blockhash, lastValidBlockHeight})\<close>
  holds, the instructions added to it, and the keys that have signed it so far.
  \<^verbatim>\<open>tx.signature\<close> is the fee payer's signature.
\<close>

record 'i Transaction =
  feePayer :: PublicKey
  recentBlockhash :: string
  tx_lastValidBlockHeight :: nat
  instructions :: "'i TransactionInstruction list"
  signatures :: "PublicKey list"

definition partialSign :: "'i Transaction \<Rightarrow> PublicKey \<Rightarrow> 'i Transaction" where
  "partialSign tx key = tx\<lparr>signatures := signatures tx @ [key]\<rparr>"

definition tx_signature :: "'i Transaction \<Rightarrow> PublicKey option" where
  "tx_signature tx = (if feePayer tx \<in> set (signatures tx) then Some (feePayer tx) else None)"

text \<open>The caller's arguments (\<^verbatim>\<open>ICreateStreamData\<close>, \<^verbatim>\<open>ICreateStreamSolanaExt\<close>,
  \<^verbatim>\<open>IRecipient\<close>, \<^verbatim>\<open>ICreateMultipleStreamData\<close>), with the fields the client
  destructures. An optional field is an \<open>option\<close>; its default is applied by the client.\<close>

record ICreateStreamData =
  recipient :: string
  tokenId :: string
  start :: int
  amount :: int
  period :: int
  cliff :: int
  cliffAmount :: int
  amountPerPeriod :: int
  name :: string
  canTopup :: bool
  cancelableBySender :: bool
  cancelableByRecipient :: bool
  transferableBySender :: bool
  transferableByRecipient :: bool
  automaticWithdrawal :: "bool option"
  withdrawalFrequency :: "int option"

record ICreateStreamSolanaExt =
  sender :: Signer
  partner :: "string option"
  isNative :: "bool option"

record IRecipient =
  recipient :: string
  amount :: int
  name :: string
  cliffAmount :: int
  amountPerPeriod :: int

record ICreateMultipleStreamData =
  tokenId :: string
  start :: int
  period :: int
  cliff :: int
  canTopup :: bool
  cancelableBySender :: bool
  cancelableByRecipient :: bool
  transferableBySender :: bool
  transferableByRecipient :: bool
  automaticWithdrawal :: "bool option"
  withdrawalFrequency :: "int option"
  recipients :: "IRecipient list"

record 'i CreateResponse =
  ixs :: "'i TransactionInstruction list"
  tx :: string
  metadata :: Keypair

record 'i BatchItem =
  tx :: "'i Transaction"
  recipient :: string

record 'i BatchItemSuccess = "'i BatchItem" +
  signature :: string

record CreateMultiResponse =
  txs :: "string list"
  metadatas :: "Keypair list"
  metadataToRecipient :: "(string \<times> IRecipient) list"
  errors :: "BatchItemError list"

text \<open>
  What the client cannot see of the world changes as it runs: how many key pairs
  \<^verbatim>\<open>Keypair.generate()\<close> has handed out, and which signed transactions were submitted
  to the cluster (in serialised form), in the order the submissions began.
\<close>

record 'i world =
  generated :: nat
  submitted :: "'i Transaction list"

text \<open>
  The client object (\<^verbatim>\<open>this.programId\<close>, \<^verbatim>\<open>this.commitment\<close>) and its collaborators:
  the constants of \<^verbatim>\<open>./constants\<close> and of the Solana libraries, key generation, address
  derivation (\<^verbatim>\<open>PublicKey.findProgramAddress\<close> on the seeds \<^verbatim>\<open>"strm"\<close> and the metadata
  key, \<^verbatim>\<open>ata\<close> of \<^verbatim>\<open>./utils\<close>), \<^verbatim>\<open>prepareWrappedAccount\<close> of \<^verbatim>\<open>./instructions\<close>, the
  wallet's consent to sign the transactions put before it (\<open>wallet_refuses\<close> gives the
  rejection when the user declines), \<^verbatim>\<open>tx.serialize()\<close>, which throws on a transaction it
  cannot verify (\<open>serialize\<close> gives the error then; the bytes are determined by the
  transaction, which stands for them), the text the submission helper makes of a failure,
  and the RPC calls, whose results may depend on what happened before.
\<close>

datatype Commitment = CommitmentString string | ConnectionConfig "string option"

record ('i, 'x, 'a) SolanaStreamClient =
  programId :: PublicKey
  commitment :: Commitment
  valid_key :: "string \<Rightarrow> bool"
  STREAMFLOW_TREASURY_PUBLIC_KEY :: PublicKey
  WITHDRAWOR_PUBLIC_KEY :: PublicKey
  FEE_ORACLE_PUBLIC_KEY :: PublicKey
  SYSVAR_RENT_PUBKEY :: PublicKey
  TOKEN_PROGRAM_ID :: PublicKey
  ASSOCIATED_TOKEN_PROGRAM_ID :: PublicKey
  SystemProgram_programId :: PublicKey
  STREAM_STRUCT_OFFSET_SENDER :: nat
  STREAM_STRUCT_OFFSET_RECIPIENT :: nat
  Keypair_generate :: "nat \<Rightarrow> Keypair"
  findProgramAddress :: "PublicKey \<Rightarrow> PublicKey"
  ata :: "PublicKey \<Rightarrow> PublicKey \<Rightarrow> PublicKey"
  prepareWrappedAccount ::
    "'i world \<Rightarrow> PublicKey \<Rightarrow> int \<Rightarrow> 'x failure + 'i TransactionInstruction list"
  getLatestBlockhash :: "'i world \<Rightarrow> string option \<Rightarrow> 'x failure + blockhash_info"
  wallet_refuses :: "'i Transaction list \<Rightarrow> 'x failure option"
  serialize :: "'i Transaction \<Rightarrow> 'x failure option"
  error_text :: "'x failure \<Rightarrow> string"
  sendAndConfirmRawTransaction :: "'i world \<Rightarrow> 'i Transaction \<Rightarrow> 'x failure + string"
  getProgramAccounts :: "'i world \<Rightarrow> PublicKey \<Rightarrow> nat \<Rightarrow> 'x failure + (PublicKey \<times> 'a) list"

section \<open>The Solana stream client: operations\<close>

text \<open>
  An asynchronous method runs on the world and either returns a value or throws (rejects);
  the world it leaves behind is kept in both cases.
\<close>

definition returnA :: "'v \<Rightarrow> 'w \<Rightarrow> ('t + 'v) \<times> 'w" where
  "returnA v w = (Inr v, w)"

definition throwA :: "'t \<Rightarrow> 'w \<Rightarrow> ('t + 'v) \<times> 'w" where
  "throwA t w = (Inl t, w)"

definition liftA :: "'t + 'v \<Rightarrow> 'w \<Rightarrow> ('t + 'v) \<times> 'w" where
  "liftA r w = (r, w)"

definition bindA ::
  "('w \<Rightarrow> ('t + 'v) \<times> 'w) \<Rightarrow> ('v \<Rightarrow> 'w \<Rightarrow> ('t + 'u) \<times> 'w) \<Rightarrow> 'w \<Rightarrow> ('t + 'u) \<times> 'w" where
  "bindA m f w = (case m w of (Inl t, w') \<Rightarrow> (Inl t, w') | (Inr v, w') \<Rightarrow> f v w')"

text \<open>\<^verbatim>\<open>new PublicKey(text)\<close>.\<close>

definition PublicKey_new ::
  "('i, 'x, 'a) SolanaStreamClient \<Rightarrow> string \<Rightarrow> 'x failure + PublicKey" where
  "PublicKey_new this s =
     (if valid_key this s then Inr (PublicKey s)
      else Inl (Err (Error ''Invalid public key input'')))"

text \<open>
  \<^verbatim>\<open>new BN(number)\<close>, for an integral number: bn.js asserts that the number is below
  \<open>2\<^sup>5\<^sup>3\<close> in absolute value.
\<close>

definition BN_new :: "int \<Rightarrow> 'x failure + int" where
  "BN_new n = (if \<bar>n\<bar> < 2 ^ 53 then Inr n else Inl (Err (Error ''Assertion failed'')))"

text \<open>\<^verbatim>\<open>Keypair.generate()\<close>, \<^verbatim>\<open>this.connection.getLatestBlockhash(commitment)\<close> with
  \<^verbatim>\<open>typeof this.commitment == "string" ? this.commitment : this.commitment.commitment\<close>.\<close>

definition generate ::
  "('i, 'x, 'a) SolanaStreamClient \<Rightarrow> 'i world \<Rightarrow> ('x failure + Keypair) \<times> 'i world" where
  "generate this w =
     (Inr (Keypair_generate this (generated w)), w\<lparr>generated := Suc (generated w)\<rparr>)"

definition latestBlockhash ::
  "('i, 'x, 'a) SolanaStreamClient \<Rightarrow> 'i world \<Rightarrow> ('x failure + blockhash_info) \<times> 'i world" where
  "latestBlockhash this w =
     (getLatestBlockhash this w
        (case commitment this of CommitmentString c \<Rightarrow> Some c | ConnectionConfig c \<Rightarrow> c), w)"

text \<open>
  Signing puts the signer's key on the transaction. A wallet adapter signs when the user
  consents to the transactions shown; a wallet without a public key signs nothing.
\<close>

definition sign_with :: "Signer \<Rightarrow> 'i Transaction \<Rightarrow> 'i Transaction" where
  "sign_with signer t =
     (case signer_publicKey signer of Some key \<Rightarrow> partialSign t key | None \<Rightarrow> t)"

text \<open>
  \<^verbatim>\<open>sendAndConfirmRawTransaction(this.connection, rawTx, ...)\<close>: the submission is recorded
  and the cluster answers.
\<close>

definition submit ::
  "('i, 'x, 'a) SolanaStreamClient \<Rightarrow> 'i Transaction \<Rightarrow> 'i world
    \<Rightarrow> ('x failure + string) \<times> 'i world" where
  "submit this rawTx w =
     (sendAndConfirmRawTransaction this w rawTx, w\<lparr>submitted := submitted w @ [rawTx]\<rparr>)"

text \<open>
  \<^verbatim>\<open>
  private async sign(invoker, tx, hash) {
    if (isSignerWallet(invoker)) {
      await invoker.signTransaction(tx);
    } else {
      tx.partialSign(invoker);
    }
    const rawTx = tx.serialize();
    if (!hash.lastValidBlockHeight || !tx.signature || !hash.blockhash)
      throw Error("Error with transaction parameters.");
    const confirmationStrategy = { lastValidBlockHeight: hash.lastValidBlockHeight,
      signature: bs58.encode(tx.signature), blockhash: hash.blockhash };
    const signature = await sendAndConfirmRawTransaction(this.connection, rawTx,
      confirmationStrategy);
    return signature;
  }
  \<close>
  The confirmation strategy is determined by the transaction and the hash; the cluster's
  answer \<open>sendAndConfirmRawTransaction\<close> stands for the call with it.
\<close>

definition sign ::
  "('i, 'x, 'a) SolanaStreamClient \<Rightarrow> Signer \<Rightarrow> 'i Transaction \<Rightarrow> blockhash_info
    \<Rightarrow> 'i world \<Rightarrow> ('x failure + string) \<times> 'i world" where
  "sign this invoker t hash =
     bindA
       (if isSignerWallet invoker
        then liftA (case wallet_refuses this [t] of
                      Some e \<Rightarrow> Inl e | None \<Rightarrow> Inr (sign_with invoker t))
        else returnA (sign_with invoker t))
       (\<lambda>t.
     bindA (liftA (case serialize this t of Some e \<Rightarrow> Inl e | None \<Rightarrow> Inr t)) (\<lambda>rawTx.
       if lastValidBlockHeight hash = 0 \<or> tx_signature t = None \<or> blockhash hash = []
       then throwA (Err (Error ''Error with transaction parameters.''))
       else submit this rawTx))"

text \<open>
  \<^verbatim>\<open>public async create({recipient, tokenId: mint, start, amount: depositedAmount, ...},
    { sender, partner = null, isNative = false })\<close>, lines 136 to 240 of
  \<^verbatim>\<open>StreamClient.ts\<close>. The statements are taken in their order:
  \<^verbatim>\<open>
    const mintPublicKey = isNative ? new PublicKey(mint) : NATIVE_MINT;
    const recipientPublicKey = new PublicKey(recipient);
    const metadata = Keypair.generate();
    const [escrowTokens] = await PublicKey.findProgramAddress(...);
    const senderTokens = await ata(mintPublicKey, sender.publicKey);
    const recipientTokens = await ata(mintPublicKey, recipientPublicKey);
    const streamflowTreasuryTokens = await ata(mintPublicKey, STREAMFLOW_TREASURY_PUBLIC_KEY);
    const partnerPublicKey = partner ? new PublicKey(partner) : STREAMFLOW_TREASURY_PUBLIC_KEY;
    const partnerTokens = await ata(mintPublicKey, partnerPublicKey);
    const nativeInstructions = isNative
      ? await prepareWrappedAccount(this.connection, sender.publicKey, depositedAmount) : [];
    ixs.push(createStreamInstruction({ start: new BN(start), ... },
      this.programId, { ..., mint: new PublicKey(mint), ... }));
    ...
    const tx = new Transaction({...}).add(...nativeInstructions, ...ixs);
    tx.partialSign(metadata);
    const signature = await this.sign(sender, tx, hash);
    return { ixs, tx: signature, metadata };
  \<close>
\<close>

definition falsy_string :: "string option \<Rightarrow> bool" where
  "falsy_string s = (s = None \<or> s = Some [])"

definition create ::
  "('i, 'x, 'a) SolanaStreamClient \<Rightarrow> ICreateStreamData \<Rightarrow> ICreateStreamSolanaExt
    \<Rightarrow> 'i world \<Rightarrow> ('x failure + 'i CreateResponse) \<times> 'i world" where
  "create this data ext =
     (let v_mint = ICreateStreamData.tokenId data;
          v_automaticWithdrawal =
            (case ICreateStreamData.automaticWithdrawal data of Some b \<Rightarrow> b | None \<Rightarrow> False);
          v_withdrawalFrequency =
            (case ICreateStreamData.withdrawalFrequency data of Some n \<Rightarrow> n | None \<Rightarrow> 0);
          v_sender = ICreateStreamSolanaExt.sender ext;
          v_partner = ICreateStreamSolanaExt.partner ext;
          v_isNative =
            (case ICreateStreamSolanaExt.isNative ext of Some b \<Rightarrow> b | None \<Rightarrow> False)
      in
      case signer_publicKey v_sender of
        None \<Rightarrow>
          throwA (Err (Error
            (''Sender'' @ [CHR 0x27] @
             ''s PublicKey is not available, check passed wallet adapter!'')))
      | Some sender_publicKey \<Rightarrow>
     bindA (liftA (if v_isNative then PublicKey_new this v_mint else Inr NATIVE_MINT))
       (\<lambda>mintPublicKey.
     bindA (liftA (PublicKey_new this (ICreateStreamData.recipient data)))
       (\<lambda>recipientPublicKey.
     bindA (generate this) (\<lambda>v_metadata.
     let v_escrowTokens = findProgramAddress this (publicKey v_metadata);
         v_senderTokens = ata this mintPublicKey sender_publicKey;
         v_recipientTokens = ata this mintPublicKey recipientPublicKey;
         v_streamflowTreasuryTokens =
           ata this mintPublicKey (STREAMFLOW_TREASURY_PUBLIC_KEY this)
     in
     bindA (liftA (if falsy_string v_partner then Inr (STREAMFLOW_TREASURY_PUBLIC_KEY this)
                   else PublicKey_new this (the v_partner)))
       (\<lambda>partnerPublicKey.
     let v_partnerTokens = ata this mintPublicKey partnerPublicKey in
     bindA (if v_isNative
            then (\<lambda>w. (prepareWrappedAccount this w sender_publicKey
                          (ICreateStreamData.amount data), w))
            else returnA [])
       (\<lambda>nativeInstructions.
     bindA (liftA (BN_new (ICreateStreamData.start data))) (\<lambda>bn_start.
     bindA (liftA (BN_new (ICreateStreamData.period data))) (\<lambda>bn_period.
     bindA (liftA (BN_new (ICreateStreamData.cliff data))) (\<lambda>bn_cliff.
     bindA (liftA (BN_new (if v_automaticWithdrawal then v_withdrawalFrequency
                           else ICreateStreamData.period data)))
       (\<lambda>bn_withdrawFrequency.
     bindA (liftA (PublicKey_new this (ICreateStreamData.recipient data)))
       (\<lambda>recipient_key.
     bindA (liftA (PublicKey_new this v_mint)) (\<lambda>mint_key.
     let v_ixs =
           [createStreamInstruction
              \<lparr> CreateStreamInstructionData.start = bn_start,
                CreateStreamInstructionData.depositedAmount = ICreateStreamData.amount data,
                CreateStreamInstructionData.period = bn_period,
                CreateStreamInstructionData.amountPerPeriod =
                  ICreateStreamData.amountPerPeriod data,
                CreateStreamInstructionData.cliff = bn_cliff,
                CreateStreamInstructionData.cliffAmount = ICreateStreamData.cliffAmount data,
                CreateStreamInstructionData.cancelableBySender =
                  ICreateStreamData.cancelableBySender data,
                CreateStreamInstructionData.cancelableByRecipient =
                  ICreateStreamData.cancelableByRecipient data,
                CreateStreamInstructionData.automaticWithdrawal = v_automaticWithdrawal,
                CreateStreamInstructionData.transferableBySender =
                  ICreateStreamData.transferableBySender data,
                CreateStreamInstructionData.transferableByRecipient =
                  ICreateStreamData.transferableByRecipient data,
                CreateStreamInstructionData.canTopup = ICreateStreamData.canTopup data,
                CreateStreamInstructionData.name = ICreateStreamData.name data,
                CreateStreamInstructionData.withdrawFrequency = bn_withdrawFrequency \<rparr>
              (programId this)
              \<lparr> CreateStreamInstructionAccounts.sender = sender_publicKey,
                CreateStreamInstructionAccounts.senderTokens = v_senderTokens,
                CreateStreamInstructionAccounts.recipient = recipient_key,
                CreateStreamInstructionAccounts.metadata = publicKey v_metadata,
                CreateStreamInstructionAccounts.escrowTokens = v_escrowTokens,
                CreateStreamInstructionAccounts.recipientTokens = v_recipientTokens,
                CreateStreamInstructionAccounts.streamflowTreasury =
                  STREAMFLOW_TREASURY_PUBLIC_KEY this,
                CreateStreamInstructionAccounts.streamflowTreasuryTokens =
                  v_streamflowTreasuryTokens,
                CreateStreamInstructionAccounts.partner = partnerPublicKey,
                CreateStreamInstructionAccounts.partnerTokens = v_partnerTokens,
                CreateStreamInstructionAccounts.mint = mint_key,
                CreateStreamInstructionAccounts.feeOracle = FEE_ORACLE_PUBLIC_KEY this,
                CreateStreamInstructionAccounts.rent = SYSVAR_RENT_PUBKEY this,
                CreateStreamInstructionAccounts.timelockProgram = programId this,
                CreateStreamInstructionAccounts.tokenProgram = TOKEN_PROGRAM_ID this,
                CreateStreamInstructionAccounts.associatedTokenProgram =
                  ASSOCIATED_TOKEN_PROGRAM_ID this,
                CreateStreamInstructionAccounts.withdrawor = WITHDRAWOR_PUBLIC_KEY this,
                CreateStreamInstructionAccounts.systemProgram =
                  SystemProgram_programId this \<rparr>]
     in
     bindA (latestBlockhash this) (\<lambda>hash.
     let t = partialSign
               \<lparr> feePayer = sender_publicKey,
                 recentBlockhash = blockhash hash,
                 tx_lastValidBlockHeight = lastValidBlockHeight hash,
                 instructions = nativeInstructions @ v_ixs,
                 signatures = [] \<rparr>
               (publicKey v_metadata)
     in
     bindA (sign this v_sender t hash) (\<lambda>v_signature.
     returnA
       \<lparr> CreateResponse.ixs = v_ixs,
         CreateResponse.tx = v_signature,
         CreateResponse.metadata = v_metadata \<rparr>))))))))))))))"

text \<open>
  \<^verbatim>\<open>private async prepareStreamTransaction(recipient, streamParams, solanaExtendedConfig)\<close>,
  lines 815 to 908: one unsigned creation transaction for one recipient, signed by its
  fresh metadata key only. All token accounts are derived from \<^verbatim>\<open>new PublicKey(mint)\<close>.
\<close>

definition prepareStreamTransaction ::
  "('i, 'x, 'a) SolanaStreamClient \<Rightarrow> IRecipient \<Rightarrow> ICreateMultipleStreamData
    \<Rightarrow> ICreateStreamSolanaExt
    \<Rightarrow> 'i world \<Rightarrow> ('x failure + 'i Transaction \<times> Keypair) \<times> 'i world" where
  "prepareStreamTransaction this v_recipient streamParams solanaExtendedConfig =
     (let v_mint = ICreateMultipleStreamData.tokenId streamParams;
          v_automaticWithdrawal =
            (case ICreateMultipleStreamData.automaticWithdrawal streamParams of
               Some b \<Rightarrow> b | None \<Rightarrow> False);
          v_withdrawalFrequency =
            (case ICreateMultipleStreamData.withdrawalFrequency streamParams of
               Some n \<Rightarrow> n | None \<Rightarrow> 0);
          v_sender = ICreateStreamSolanaExt.sender solanaExtendedConfig;
          v_partner = ICreateStreamSolanaExt.partner solanaExtendedConfig
      in
      case signer_publicKey v_sender of
        None \<Rightarrow>
          throwA (Err (Error
            (''Sender'' @ [CHR 0x27] @
             ''s PublicKey is not available, check passed wallet adapter!'')))
      | Some sender_publicKey \<Rightarrow>
     bindA (liftA (PublicKey_new this (IRecipient.recipient v_recipient)))
       (\<lambda>recipientPublicKey.
     bindA (liftA (PublicKey_new this v_mint)) (\<lambda>mintPublicKey.
     bindA (generate this) (\<lambda>v_metadata.
     let v_escrowTokens = findProgramAddress this (publicKey v_metadata);
         v_senderTokens = ata this mintPublicKey sender_publicKey;
         v_recipientTokens = ata this mintPublicKey recipientPublicKey;
         v_streamflowTreasuryTokens =
           ata this mintPublicKey (STREAMFLOW_TREASURY_PUBLIC_KEY this)
     in
     bindA (liftA (if falsy_string v_partner then Inr (STREAMFLOW_TREASURY_PUBLIC_KEY this)
                   else PublicKey_new this (the v_partner)))
       (\<lambda>partnerPublicKey.
     let v_partnerTokens = ata this mintPublicKey partnerPublicKey in
     bindA (liftA (BN_new (ICreateMultipleStreamData.start streamParams))) (\<lambda>bn_start.
     bindA (liftA (BN_new (ICreateMultipleStreamData.period streamParams))) (\<lambda>bn_period.
     bindA (liftA (BN_new (ICreateMultipleStreamData.cliff streamParams))) (\<lambda>bn_cliff.
     bindA (liftA (BN_new (if v_automaticWithdrawal then v_withdrawalFrequency
                           else ICreateMultipleStreamData.period streamParams)))
       (\<lambda>bn_withdrawFrequency.
     bindA (liftA (PublicKey_new this (IRecipient.recipient v_recipient)))
       (\<lambda>recipient_key.
     bindA (liftA (PublicKey_new this v_mint)) (\<lambda>mint_key.
     let v_ixs =
           [createStreamInstruction
              \<lparr> CreateStreamInstructionData.start = bn_start,
                CreateStreamInstructionData.depositedAmount = IRecipient.amount v_recipient,
                CreateStreamInstructionData.period = bn_period,
                CreateStreamInstructionData.amountPerPeriod =
                  IRecipient.amountPerPeriod v_recipient,
                CreateStreamInstructionData.cliff = bn_cliff,
                CreateStreamInstructionData.cliffAmount = IRecipient.cliffAmount v_recipient,
                CreateStreamInstructionData.cancelableBySender =
                  ICreateMultipleStreamData.cancelableBySender streamParams,
                CreateStreamInstructionData.cancelableByRecipient =
                  ICreateMultipleStreamData.cancelableByRecipient streamParams,
                CreateStreamInstructionData.automaticWithdrawal = v_automaticWithdrawal,
                CreateStreamInstructionData.transferableBySender =
                  ICreateMultipleStreamData.transferableBySender streamParams,
                CreateStreamInstructionData.transferableByRecipient =
                  ICreateMultipleStreamData.transferableByRecipient streamParams,
                CreateStreamInstructionData.canTopup =
                  ICreateMultipleStreamData.canTopup streamParams,
                CreateStreamInstructionData.name = IRecipient.name v_recipient,
                CreateStreamInstructionData.withdrawFrequency = bn_withdrawFrequency \<rparr>
              (programId this)
              \<lparr> CreateStreamInstructionAccounts.sender = sender_publicKey,
                CreateStreamInstructionAccounts.senderTokens = v_senderTokens,
                CreateStreamInstructionAccounts.recipient = recipient_key,
                CreateStreamInstructionAccounts.metadata = publicKey v_metadata,
                CreateStreamInstructionAccounts.escrowTokens = v_escrowTokens,
                CreateStreamInstructionAccounts.recipientTokens = v_recipientTokens,
                CreateStreamInstructionAccounts.streamflowTreasury =
                  STREAMFLOW_TREASURY_PUBLIC_KEY this,
                CreateStreamInstructionAccounts.streamflowTreasuryTokens =
                  v_streamflowTreasuryTokens,
                CreateStreamInstructionAccounts.partner = partnerPublicKey,
                CreateStreamInstructionAccounts.partnerTokens = v_partnerTokens,
                CreateStreamInstructionAccounts.mint = mint_key,
                CreateStreamInstructionAccounts.feeOracle = FEE_ORACLE_PUBLIC_KEY this,
                CreateStreamInstructionAccounts.rent = SYSVAR_RENT_PUBKEY this,
                CreateStreamInstructionAccounts.timelockProgram = programId this,
                CreateStreamInstructionAccounts.tokenProgram = TOKEN_PROGRAM_ID this,
                CreateStreamInstructionAccounts.associatedTokenProgram =
                  ASSOCIATED_TOKEN_PROGRAM_ID this,
                CreateStreamInstructionAccounts.withdrawor = WITHDRAWOR_PUBLIC_KEY this,
                CreateStreamInstructionAccounts.systemProgram =
                  SystemProgram_programId this \<rparr>]
     in
     bindA (latestBlockhash this) (\<lambda>hash.
     let t = partialSign
               \<lparr> feePayer = sender_publicKey,
                 recentBlockhash = blockhash hash,
                 tx_lastValidBlockHeight = lastValidBlockHeight hash,
                 instructions = v_ixs,
                 signatures = [] \<rparr>
               (publicKey v_metadata)
     in returnA (t, v_metadata)))))))))))))"

text \<open>
  Modelled from the spec: \<^verbatim>\<open>signAllTransactionWithRecipients\<close> of \<^verbatim>\<open>./utils\<close> is not
  among the sources at hand. "Pass the full ordered batch to a single sign-all call against
  the signer (one user-facing approval for the whole batch, not one per stream)": a wallet
  is asked once, for all transactions, and may decline; a key pair signs each. The signed
  batch has the items in the order of the batch, each with its recipient.
\<close>

definition signAllTransactionWithRecipients ::
  "('i, 'x, 'a) SolanaStreamClient \<Rightarrow> Signer \<Rightarrow> 'i BatchItem list
    \<Rightarrow> 'x failure + 'i BatchItem list" where
  "signAllTransactionWithRecipients this v_sender items =
     (let signed = map (\<lambda>item. item\<lparr>BatchItem.tx := sign_with v_sender (BatchItem.tx item)\<rparr>) items
      in if isSignerWallet v_sender
         then (case wallet_refuses this (map BatchItem.tx items) of
                 Some e \<Rightarrow> Inl e | None \<Rightarrow> Inr signed)
         else Inr signed)"

text \<open>
  Modelled from the spec: \<^verbatim>\<open>sendAndConfirmStreamRawTransaction\<close> of \<^verbatim>\<open>./utils\<close> is not
  among the sources at hand. It submits one signed item and waits for its confirmation;
  "fulfilled submissions contribute their transaction id", "rejected submissions contribute
  their error (paired with which recipient failed)". The promise it returns fulfils with
  the item and its signature (\<^verbatim>\<open>BatchItemSuccess\<close>) or rejects with the recipient and the
  error (\<^verbatim>\<open>BatchItemError\<close>).
\<close>

definition sendAndConfirmStreamRawTransaction ::
  "('i, 'x, 'a) SolanaStreamClient \<Rightarrow> 'i BatchItem
    \<Rightarrow> 'i world \<Rightarrow> (BatchItemError + 'i BatchItemSuccess) \<times> 'i world" where
  "sendAndConfirmStreamRawTransaction this batchItem w =
     (case serialize this (BatchItem.tx batchItem) of
        Some e \<Rightarrow>
          (Inl \<lparr> BatchItemError.recipient = BatchItem.recipient batchItem,
                 BatchItemError.error = error_text this e \<rparr>, w)
      | None \<Rightarrow>
          (case submit this (BatchItem.tx batchItem) w of
             (Inl e, w') \<Rightarrow>
               (Inl \<lparr> BatchItemError.recipient = BatchItem.recipient batchItem,
                      BatchItemError.error = error_text this e \<rparr>, w')
           | (Inr v_signature, w') \<Rightarrow>
               (Inr \<lparr> BatchItem.tx = BatchItem.tx batchItem,
                      BatchItem.recipient = BatchItem.recipient batchItem,
                      BatchItemSuccess.signature = v_signature \<rparr>, w')))"

text \<open>
  \<^verbatim>\<open>await p\<close> on a promise that rejects throws the rejection value; here the value is the
  helper's \<^verbatim>\<open>BatchItemError\<close> object. \<^verbatim>\<open>Promise.allSettled\<close> waits for every promise and
  never rejects. The calls are started in the order of the list; the answer of the cluster
  to each is taken in that order.
\<close>

definition await_item ::
  "('i world \<Rightarrow> (BatchItemError + 'v) \<times> 'i world) \<Rightarrow> 'i world \<Rightarrow> ('x failure + 'v) \<times> 'i world" where
  "await_item p w =
     (case p w of (Inl e, w') \<Rightarrow> (Inl (NonError (Inl e)), w') | (Inr v, w') \<Rightarrow> (Inr v, w'))"

fun allSettled ::
  "('w \<Rightarrow> ('e + 'v) \<times> 'w) list \<Rightarrow> 'w \<Rightarrow> ('e + 'v) list \<times> 'w" where
  "allSettled [] w = ([], w)"
| "allSettled (p # ps) w =
     (case p w of (r, w1) \<Rightarrow> (case allSettled ps w1 of (rs, w2) \<Rightarrow> (r # rs, w2)))"

text \<open>
  \<^verbatim>\<open>public async createMultiple(data, { sender, partner = null, isNative = false })\<close>,
  lines 396 to 475. First the loop over the recipients (lines 412 to 423):
  \<^verbatim>\<open>
    for (const recipientData of recipients) {
      const { tx, metadata } = await this.prepareStreamTransaction(recipientData, data,
        { sender, partner });
      const metadataPubKey = metadata.publicKey.toBase58();
      metadataToRecipient[metadataPubKey] = recipientData;
      metadatas.push(metadata);
      batch.push({ tx, recipient: recipientData.recipient });
    }
  \<close>
  \<^verbatim>\<open>metadataToRecipient\<close> is an object: assigning to a key it has replaces the value.
\<close>

fun update_entry :: "'k \<Rightarrow> 'v \<Rightarrow> ('k \<times> 'v) list \<Rightarrow> ('k \<times> 'v) list" where
  "update_entry k v [] = [(k, v)]"
| "update_entry k v (p # ps) = (if fst p = k then (k, v) # ps else p # update_entry k v ps)"

fun prepare_batch ::
  "('i, 'x, 'a) SolanaStreamClient \<Rightarrow> ICreateMultipleStreamData \<Rightarrow> ICreateStreamSolanaExt
    \<Rightarrow> IRecipient list \<Rightarrow> Keypair list \<times> (string \<times> IRecipient) list \<times> 'i BatchItem list
    \<Rightarrow> 'i world
    \<Rightarrow> ('x failure + Keypair list \<times> (string \<times> IRecipient) list \<times> 'i BatchItem list)
        \<times> 'i world" where
  "prepare_batch this data cfg [] acc = returnA acc"
| "prepare_batch this data cfg (recipientData # rest) (v_metadatas, v_metadataToRecipient, batch) =
     bindA (prepareStreamTransaction this recipientData data cfg) (\<lambda>(t, v_metadata).
       prepare_batch this data cfg rest
         (v_metadatas @ [v_metadata],
          update_entry (toBase58 (publicKey v_metadata)) recipientData v_metadataToRecipient,
          batch @ [\<lparr> BatchItem.tx = t,
                     BatchItem.recipient = IRecipient.recipient recipientData \<rparr>]))"

text \<open>
  Lines 400 to 453: the batch is built, the wrap transaction is appended when
  \<^verbatim>\<open>isNative\<close>, everything is signed in one call, and the wrap transaction is taken off the
  end of the signed batch, submitted and awaited:
  \<^verbatim>\<open>
    if (isNative) {
      const totalDepositedAmount = recipients.reduce(
        (acc, recipient) => recipient.amount.add(acc), new BN(0));
      const nativeInstructions = await prepareWrappedAccount(this.connection,
        sender.publicKey, totalDepositedAmount);
      ...
      const prepareTransaction = new Transaction({...}).add(...nativeInstructions);
      batch.push({ tx: prepareTransaction, recipient: sender.publicKey.toBase58() });
    }
    const signed_batch = await signAllTransactionWithRecipients(sender, batch);
    if (isNative) {
      const prepareTx = signed_batch.pop();
      await sendAndConfirmStreamRawTransaction(this.connection, prepareTx!);
    }
  \<close>
  The result is what the rest of the method works on: the metadata keys, the map from
  metadata key to recipient, and the signed creation items.
\<close>

definition createMultiple_batch ::
  "('i, 'x, 'a) SolanaStreamClient \<Rightarrow> ICreateMultipleStreamData \<Rightarrow> ICreateStreamSolanaExt
    \<Rightarrow> 'i world
    \<Rightarrow> ('x failure + Keypair list \<times> (string \<times> IRecipient) list \<times> 'i BatchItem list)
        \<times> 'i world" where
  "createMultiple_batch this data ext =
     (let v_recipients = ICreateMultipleStreamData.recipients data;
          v_sender = ICreateStreamSolanaExt.sender ext;
          v_partner = ICreateStreamSolanaExt.partner ext;
          v_isNative =
            (case ICreateStreamSolanaExt.isNative ext of Some b \<Rightarrow> b | None \<Rightarrow> False)
      in
      case signer_publicKey v_sender of
        None \<Rightarrow>
          throwA (Err (Error
            (''Sender'' @ [CHR 0x27] @
             ''s PublicKey is not available, check passed wallet adapter!'')))
      | Some sender_publicKey \<Rightarrow>
     bindA (prepare_batch this data
              \<lparr> ICreateStreamSolanaExt.sender = v_sender,
                ICreateStreamSolanaExt.partner = v_partner,
                ICreateStreamSolanaExt.isNative = None \<rparr>
              v_recipients ([], [], []))
       (\<lambda>(v_metadatas, v_metadataToRecipient, batch).
     bindA (if v_isNative
            then
              (let totalDepositedAmount =
                     foldl (\<lambda>acc r. IRecipient.amount r + acc) 0 v_recipients
               in
               bindA (\<lambda>w. (prepareWrappedAccount this w sender_publicKey
                              totalDepositedAmount, w))
                 (\<lambda>nativeInstructions.
               bindA (latestBlockhash this) (\<lambda>hash.
               let prepareTransaction =
                     \<lparr> feePayer = sender_publicKey,
                       recentBlockhash = blockhash hash,
                       tx_lastValidBlockHeight = lastValidBlockHeight hash,
                       instructions = nativeInstructions,
                       signatures = [] \<rparr>
               in returnA
                    (batch @ [\<lparr> BatchItem.tx = prepareTransaction,
                               BatchItem.recipient = toBase58 sender_publicKey \<rparr>]))))
            else returnA batch)
       (\<lambda>batch.
     bindA (liftA (signAllTransactionWithRecipients this v_sender batch)) (\<lambda>signed_batch.
     bindA (if v_isNative
            then
              (case rev signed_batch of
                 [] \<Rightarrow> throwA (Err (Error ''TypeError''))
               | prepareTx # popped \<Rightarrow>
                   bindA (await_item (sendAndConfirmStreamRawTransaction this prepareTx))
                     (\<lambda>_. returnA (rev popped)))
            else returnA signed_batch)
       (\<lambda>signed_batch.
     returnA (v_metadatas, v_metadataToRecipient, signed_batch))))))"

text \<open>
  Lines 455 to 474: all remaining items are submitted, every answer is awaited, and the
  answers are split:
  \<^verbatim>\<open>
    const batchTransactionsCalls = signed_batch.map((el) =>
      sendAndConfirmStreamRawTransaction(this.connection, el));
    const responses = await Promise.allSettled(batchTransactionsCalls);
    const successes = responses.filter((el) => el.status === "fulfilled").map((el) => el.value);
    signatures.push(...successes.map((el) => el.signature));
    const failures = responses.filter((el) => el.status === "rejected")
      .map((el) => el.reason as BatchItemError);
    errors.push(...failures);
    return { txs: signatures, metadatas, metadataToRecipient, errors };
  \<close>
\<close>

definition createMultiple ::
  "('i, 'x, 'a) SolanaStreamClient \<Rightarrow> ICreateMultipleStreamData \<Rightarrow> ICreateStreamSolanaExt
    \<Rightarrow> 'i world \<Rightarrow> ('x failure + CreateMultiResponse) \<times> 'i world" where
  "createMultiple this data ext =
     bindA (createMultiple_batch this data ext)
       (\<lambda>(v_metadatas, v_metadataToRecipient, signed_batch).
     bindA (\<lambda>w. case allSettled (map (sendAndConfirmStreamRawTransaction this) signed_batch) w
                 of (responses, w') \<Rightarrow> (Inr responses, w'))
       (\<lambda>responses.
     let successes = [v. Inr v \<leftarrow> responses];
         v_signatures = map BatchItemSuccess.signature successes;
         failures = [e. Inl e \<leftarrow> responses]
     in returnA
          \<lparr> txs = v_signatures,
            metadatas = v_metadatas,
            metadataToRecipient = v_metadataToRecipient,
            errors = failures \<rparr>))"

text \<open>
  \<^verbatim>\<open>public async get({ wallet, type = StreamType.All, direction = StreamDirection.All })\<close>,
  lines 733 to 776. An account is a public key with its data. Decoding
  (\<^verbatim>\<open>new Contract(decodeStream(account.account.data))\<close>, both of files that are not at hand)
  is a parameter, as are the two properties the method reads from a decoded stream:
  \<^verbatim>\<open>startTime\<close> (\<open>None\<close> when the property is undefined or no number) and \<^verbatim>\<open>canTopup\<close>.
\<close>

record ('a, 'c, 'x) stream_codec =
  decode :: "'a \<Rightarrow> 'x failure + 'c"
  startTime :: "'c \<Rightarrow> rat option"
  canTopup :: "'c \<Rightarrow> bool"

text \<open>
  \<^verbatim>\<open>
    accounts.forEach((account) => {
      const decoded = new Contract(decodeStream(account.account.data));
      streams = { ...streams, [account.pubkey.toBase58()]: decoded };
    });
  \<close>
  \<^verbatim>\<open>streams\<close> is an object keyed by address: a key that is there keeps its place and takes
  the new value. \<^verbatim>\<open>Object.entries\<close> lists the keys in the order they were first added (a
  base58 address is never an array index).
\<close>

fun collect_streams ::
  "('a, 'c, 'x) stream_codec \<Rightarrow> (PublicKey \<times> 'a) list \<Rightarrow> (string \<times> 'c) list
    \<Rightarrow> 'x failure + (string \<times> 'c) list" where
  "collect_streams codec [] streams = Inr streams"
| "collect_streams codec (v_account # rest) streams =
     bind_thrown (decode codec (snd v_account)) (\<lambda>decoded.
       collect_streams codec rest (update_entry (toBase58 (fst v_account)) decoded streams))"

text \<open>
  \<^verbatim>\<open>.sort(([, stream1], [, stream2]) => stream2.startTime - stream1.startTime)\<close>.
  The difference of two numbers has the sign of their exact difference; with an undefined
  operand it is \<^verbatim>\<open>NaN\<close>, which \<^verbatim>\<open>sort\<close> takes as \<open>0\<close>. \<^verbatim>\<open>Array.prototype.sort\<close> is
  stable: an element goes before the first element that the comparator puts after it.
\<close>

definition compare_startTime :: "('a, 'c, 'x) stream_codec \<Rightarrow> string \<times> 'c \<Rightarrow> string \<times> 'c \<Rightarrow> rat" where
  "compare_startTime codec entry1 entry2 =
     (case (startTime codec (snd entry2), startTime codec (snd entry1)) of
        (Some t2, Some t1) \<Rightarrow> t2 - t1
      | _ \<Rightarrow> 0)"

fun insert_sorted :: "('e \<Rightarrow> 'e \<Rightarrow> rat) \<Rightarrow> 'e \<Rightarrow> 'e list \<Rightarrow> 'e list" where
  "insert_sorted cmp x [] = [x]"
| "insert_sorted cmp x (y # ys) =
     (if cmp y x > 0 then x # y # ys else y # insert_sorted cmp x ys)"

definition sort_entries :: "('e \<Rightarrow> 'e \<Rightarrow> rat) \<Rightarrow> 'e list \<Rightarrow> 'e list" where
  "sort_entries cmp xs = foldl (\<lambda>sorted x. insert_sorted cmp x sorted) [] xs"

definition get ::
  "('i, 'x, 'a) SolanaStreamClient \<Rightarrow> ('a, 'c, 'x) stream_codec \<Rightarrow> PublicKey
    \<Rightarrow> StreamType option \<Rightarrow> StreamDirection option \<Rightarrow> 'i world
    \<Rightarrow> 'x failure + (string \<times> 'c) list" where
  "get this codec wallet v_type v_direction w =
     (let type = (case v_type of Some t \<Rightarrow> t | None \<Rightarrow> Type_All);
          direction = (case v_direction of Some d \<Rightarrow> d | None \<Rightarrow> Direction_All)
      in
      bind_thrown
        (if direction = Direction_All
         then
           bind_thrown (getProgramAccounts this w wallet (STREAM_STRUCT_OFFSET_SENDER this))
             (\<lambda>outgoingAccounts.
           bind_thrown (getProgramAccounts this w wallet (STREAM_STRUCT_OFFSET_RECIPIENT this))
             (\<lambda>incomingAccounts.
           Inr (outgoingAccounts @ incomingAccounts)))
         else
           (let offset = (if direction = Outgoing then STREAM_STRUCT_OFFSET_SENDER this
                          else STREAM_STRUCT_OFFSET_RECIPIENT this)
            in getProgramAccounts this w wallet offset))
        (\<lambda>accounts.
      bind_thrown (collect_streams codec accounts []) (\<lambda>streams.
      let sortedStreams = sort_entries (compare_startTime codec) streams
      in
        if type = Type_All then Inr sortedStreams
        else Inr (if type = Type_Stream
                  then filter (\<lambda>stream. canTopup codec (snd stream)) sortedStreams
                  else filter (\<lambda>stream. \<not> canTopup codec (snd stream)) sortedStreams))))"

section \<open>A sample cluster for the Solana client\<close>

text \<open>
  A small world to run the client in. Stream accounts carry their sender, recipient, start
  time and top-up flag; the ledger holds one stream that the wallet \<open>W\<close> sent to itself and
  one it sent to \<open>V\<close>. The cluster rejects every transaction signed by the second metadata
  key that \<^verbatim>\<open>Keypair.generate()\<close> hands out and confirms every other one.
\<close>

record sample_account =
  acc_sender :: PublicKey
  acc_recipient :: PublicKey
  acc_start :: int
  acc_canTopup :: bool

definition sample_stream_A :: sample_account where
  "sample_stream_A =
     \<lparr> acc_sender = PublicKey ''W'', acc_recipient = PublicKey ''W'',
       acc_start = 2000, acc_canTopup = False \<rparr>"

definition sample_stream_B :: sample_account where
  "sample_stream_B =
     \<lparr> acc_sender = PublicKey ''W'', acc_recipient = PublicKey ''V'',
       acc_start = 1000, acc_canTopup = True \<rparr>"

definition sample_ledger :: "(PublicKey \<times> sample_account) list" where
  "sample_ledger = [(PublicKey ''A'', sample_stream_A), (PublicKey ''B'', sample_stream_B)]"

definition sample_client :: "(string, string, sample_account) SolanaStreamClient" where
  "sample_client =
     \<lparr> programId = PublicKey ''strm'',
       commitment = CommitmentString ''confirmed'',
       valid_key = (\<lambda>s. s \<noteq> []),
       STREAMFLOW_TREASURY_PUBLIC_KEY = PublicKey ''treasury'',
       WITHDRAWOR_PUBLIC_KEY = PublicKey ''withdrawor'',
       FEE_ORACLE_PUBLIC_KEY = PublicKey ''oracle'',
       SYSVAR_RENT_PUBKEY = PublicKey ''rent'',
       TOKEN_PROGRAM_ID = PublicKey ''token'',
       ASSOCIATED_TOKEN_PROGRAM_ID = PublicKey ''atoken'',
       SystemProgram_programId = PublicKey ''system'',
       STREAM_STRUCT_OFFSET_SENDER = 49,
       STREAM_STRUCT_OFFSET_RECIPIENT = 113,
       Keypair_generate = (\<lambda>n. Keypair (PublicKey (''meta'' @ replicate n CHR ''x''))),
       findProgramAddress = (\<lambda>k. PublicKey (''escrow-'' @ toBase58 k)),
       ata = (\<lambda>m owner. PublicKey (toBase58 m @ ''/'' @ toBase58 owner)),
       prepareWrappedAccount = (\<lambda>w k n. Inr [OtherInstruction ''wrap'']),
       getLatestBlockhash =
         (\<lambda>w c. Inr \<lparr> blockhash = ''hash'', lastValidBlockHeight = 100 \<rparr>),
       wallet_refuses = (\<lambda>ts. None),
       serialize = (\<lambda>t. None),
       error_text = (\<lambda>e. ''rejected''),
       sendAndConfirmRawTransaction =
         (\<lambda>w t. if PublicKey ''metax'' \<in> set (signatures t)
                then Inl (Err (Error ''rejected''))
                else Inr (''sig'' @ concat (map toBase58 (signatures t)))),
       getProgramAccounts =
         (\<lambda>w wallet offset.
            Inr (filter (\<lambda>v_account.
                           (if offset = 49 then acc_sender (snd v_account)
                            else acc_recipient (snd v_account)) = wallet)
                   sample_ledger)) \<rparr>"

definition sample_codec_undefined :: "(sample_account, sample_account, string) stream_codec" where
  "sample_codec_undefined =
     \<lparr> decode = Inr, startTime = (\<lambda>c. None), canTopup = acc_canTopup \<rparr>"

definition sample_codec_start :: "(sample_account, sample_account, string) stream_codec" where
  "sample_codec_start =
     \<lparr> decode = Inr, startTime = (\<lambda>c. Some (of_int (acc_start c))), canTopup = acc_canTopup \<rparr>"

definition sample_world :: "string world" where
  "sample_world = \<lparr> generated = 0, submitted = [] \<rparr>"

definition sample_create_data :: ICreateStreamData where
  "sample_create_data =
     \<lparr> ICreateStreamData.recipient = ''R'',
       ICreateStreamData.tokenId = ''USDC'',
       ICreateStreamData.start = 1000,
       ICreateStreamData.amount = 1000,
       ICreateStreamData.period = 100,
       ICreateStreamData.cliff = 1000,
       ICreateStreamData.cliffAmount = 100,
       ICreateStreamData.amountPerPeriod = 50,
       ICreateStreamData.name = ''salary'',
       ICreateStreamData.canTopup = False,
       ICreateStreamData.cancelableBySender = True,
       ICreateStreamData.cancelableByRecipient = False,
       ICreateStreamData.transferableBySender = True,
       ICreateStreamData.transferableByRecipient = False,
       ICreateStreamData.automaticWithdrawal = None,
       ICreateStreamData.withdrawalFrequency = None \<rparr>"

definition sample_ext :: "bool \<Rightarrow> ICreateStreamSolanaExt" where
  "sample_ext native =
     \<lparr> ICreateStreamSolanaExt.sender = KeypairSigner (Keypair (PublicKey ''W'')),
       ICreateStreamSolanaExt.partner = None,
       ICreateStreamSolanaExt.isNative = Some native \<rparr>"

definition sample_recipient :: "string \<Rightarrow> int \<Rightarrow> IRecipient" where
  "sample_recipient r n =
     \<lparr> IRecipient.recipient = r,
       IRecipient.amount = n,
       IRecipient.name = ''salary'',
       IRecipient.cliffAmount = 0,
       IRecipient.amountPerPeriod = 10 \<rparr>"

definition sample_multiple_data :: ICreateMultipleStreamData where
  "sample_multiple_data =
     \<lparr> ICreateMultipleStreamData.tokenId = ''USDC'',
       ICreateMultipleStreamData.start = 1000,
       ICreateMultipleStreamData.period = 100,
       ICreateMultipleStreamData.cliff = 1000,
       ICreateMultipleStreamData.canTopup = False,
       ICreateMultipleStreamData.cancelableBySender = True,
       ICreateMultipleStreamData.cancelableByRecipient = False,
       ICreateMultipleStreamData.transferableBySender = True,
       ICreateMultipleStreamData.transferableByRecipient = False,
       ICreateMultipleStreamData.automaticWithdrawal = None,
       ICreateMultipleStreamData.withdrawalFrequency = None,
       ICreateMultipleStreamData.recipients =
         [sample_recipient ''R1'' 100, sample_recipient ''R2'' 200,
          sample_recipient ''R3'' 300] \<rparr>"

section \<open>Notions used in the statements and proofs about the Solana client\<close>

text \<open>
  An action keeps the log when it submits nothing. A creation item is a batch item whose
  transaction holds exactly one stream-creation instruction of this program. An answer is
  settled for an item when it names the item's recipient (and, fulfilled, carries the item's
  transaction). The wrap transaction is the transaction of the wrap instructions as the
  sender signs it.
\<close>

definition keeps_log :: "('i world \<Rightarrow> 'r \<times> 'i world) \<Rightarrow> bool" where
  "keeps_log m \<longleftrightarrow> (\<forall>w r w'. m w = (r, w') \<longrightarrow> submitted w' = submitted w)"

definition creation_item :: "('i, 'x, 'a) SolanaStreamClient \<Rightarrow> 'i BatchItem \<Rightarrow> bool" where
  "creation_item this item \<longleftrightarrow>
     (\<exists>d a. instructions (BatchItem.tx item) = [createStreamInstruction d (programId this) a])"

definition settled_for :: "'i BatchItem \<Rightarrow> BatchItemError + 'i BatchItemSuccess \<Rightarrow> bool" where
  "settled_for item r =
     (case r of
        Inl e \<Rightarrow> BatchItemError.recipient e = BatchItem.recipient item
      | Inr s \<Rightarrow> BatchItem.recipient s = BatchItem.recipient item \<and>
                 BatchItem.tx s = BatchItem.tx item)"

definition wrap_transaction ::
  "Signer \<Rightarrow> PublicKey \<Rightarrow> 'i TransactionInstruction list \<Rightarrow> blockhash_info \<Rightarrow> 'i Transaction" where
  "wrap_transaction v_sender key nis hash =
     sign_with v_sender
       \<lparr> feePayer = key,
         recentBlockhash = blockhash hash,
         tx_lastValidBlockHeight = lastValidBlockHeight hash,
         instructions = nis,
         signatures = [] \<rparr>"

section \<open>JavaScript numbers and bignumber.js values\<close>

text \<open>
  A JavaScript number is an IEEE 754 double: not a number, an infinity, or a finite value,
  given here by its exact rational value (the sign of a zero is not kept). An arithmetic
  result is the exact result rounded to the nearest double, ties to the even significand:
  53 significant bits, exponents down to \<open>-1074\<close> for the last bit, overflow to an infinity
  from \<open>2\<^sup>1\<^sup>0\<^sup>2\<^sup>4\<close> on.
\<close>

datatype number = NaN | PInf | NInf | Fin rat

definition floor_log2 :: "rat \<Rightarrow> int" where
  \<comment> \<open>\<open>\<lfloor>log\<^sub>2 \<bar>x\<bar>\<rfloor>\<close> for \<open>x \<noteq> 0\<close>\<close>
  "floor_log2 x =
     (if \<bar>x\<bar> \<ge> 1 then bitlen \<lfloor>\<bar>x\<bar>\<rfloor> - 1 else - bitlen (\<lceil>1 / \<bar>x\<bar>\<rceil> - 1))"

definition round_half_even :: "rat \<Rightarrow> int" where
  "round_half_even x =
     (let f = \<lfloor>x\<rfloor>; r = x - of_int f
      in if r < 1 / 2 then f else if r > 1 / 2 then f + 1 else if even f then f else f + 1)"

definition fl :: "rat \<Rightarrow> number" where
  "fl x =
     (if x = 0 then Fin 0
      else
        let e = max (floor_log2 x - 52) (- 1074);
            y = of_int (round_half_even (x / 2 powi e)) * 2 powi e
        in if floor_log2 y \<ge> 1024 then (if x < 0 then NInf else PInf) else Fin y)"

text \<open>\<^verbatim>\<open>Math.trunc\<close>, \<^verbatim>\<open>a - b\<close> and \<^verbatim>\<open>a * b\<close> on numbers.\<close>

definition trunc_int :: "rat \<Rightarrow> int" where
  "trunc_int x = (if x \<ge> 0 then \<lfloor>x\<rfloor> else \<lceil>x\<rceil>)"

fun Math_trunc :: "number \<Rightarrow> number" where
  "Math_trunc (Fin x) = Fin (of_int (trunc_int x))"
| "Math_trunc v = v"

fun number_minus :: "number \<Rightarrow> number \<Rightarrow> number" where
  "number_minus (Fin x) (Fin y) = fl (x - y)"
| "number_minus NaN b = NaN"
| "number_minus a NaN = NaN"
| "number_minus PInf PInf = NaN"
| "number_minus NInf NInf = NaN"
| "number_minus PInf b = PInf"
| "number_minus NInf b = NInf"
| "number_minus a PInf = NInf"
| "number_minus a NInf = PInf"

fun number_times :: "number \<Rightarrow> number \<Rightarrow> number" where
  "number_times (Fin x) (Fin y) = fl (x * y)"
| "number_times NaN b = NaN"
| "number_times a NaN = NaN"
| "number_times (Fin x) b =
     (if x = 0 then NaN else if (x < 0) = (b = NInf) then PInf else NInf)"
| "number_times a (Fin y) =
     (if y = 0 then NaN else if (y < 0) = (a = NInf) then PInf else NInf)"
| "number_times a b = (if a = b then PInf else NInf)"

text \<open>
  \<^verbatim>\<open>String(v)\<close> of a finite number is the shortest decimal that reads back as \<open>v\<close> (the
  closest to \<open>v\<close> among the shortest, the even one of two equally close): for \<open>k = 1, 2, \<dots>\<close>
  digits, the two \<open>k\<close>-digit decimals around \<open>v\<close> are tried; 17 digits always suffice.
  \<open>decimal_of_double\<close> is the value of that decimal.
\<close>

function digits :: "int \<Rightarrow> int" where
  \<comment> \<open>the number of decimal digits of a positive integer\<close>
  "digits n = (if n \<le> 0 then 0 else digits (n div 10) + 1)"
  by pat_completeness auto

termination
  by (relation "measure nat") auto

declare digits.simps [simp del]

definition floor_log10 :: "rat \<Rightarrow> int" where
  \<comment> \<open>\<open>\<lfloor>log\<^sub>1\<^sub>0 \<bar>x\<bar>\<rfloor>\<close> for \<open>x \<noteq> 0\<close>\<close>
  "floor_log10 x =
     (if \<bar>x\<bar> \<ge> 1 then digits \<lfloor>\<bar>x\<bar>\<rfloor> - 1 else - digits (\<lceil>1 / \<bar>x\<bar>\<rceil> - 1))"

definition candidate :: "rat \<Rightarrow> int \<Rightarrow> nat \<Rightarrow> rat option" where
  "candidate x n k =
     (let u = 10 powi (n - int k);
          s = \<lfloor>x / u\<rfloor>;
          lo = of_int s * u;
          hi = of_int (s + 1) * u;
          lo_ok = (fl lo = Fin x);
          hi_ok = (fl hi = Fin x)
      in if lo_ok \<and> hi_ok
         then Some (if x - lo < hi - x then lo
                    else if hi - x < x - lo then hi
                    else if even s then lo else hi)
         else if lo_ok then Some lo
         else if hi_ok then Some hi
         else None)"

fun shortest :: "rat \<Rightarrow> int \<Rightarrow> nat list \<Rightarrow> rat" where
  "shortest x n [] = x"
| "shortest x n (k # ks) = (case candidate x n k of Some c \<Rightarrow> c | None \<Rightarrow> shortest x n ks)"

definition decimal_of_double :: "rat \<Rightarrow> rat" where
  "decimal_of_double x =
     (if x = 0 then 0
      else if x > 0 then shortest x (floor_log10 x + 1) [1..<18]
      else - shortest (- x) (floor_log10 x + 1) [1..<18])"

text \<open>
  A bignumber.js value is \<^verbatim>\<open>NaN\<close>, an infinity (\<open>True\<close> for the negative one) or a finite
  decimal, given by its exact value (again without the sign of a zero). The configuration
  is the default one: \<^verbatim>\<open>DECIMAL_PLACES = 20\<close>, \<^verbatim>\<open>ROUNDING_MODE = ROUND_HALF_UP\<close>,
  \<^verbatim>\<open>POW_PRECISION = 0\<close>, the exponent range \<open>\<plusminus>10\<^sup>7\<close>, no \<^verbatim>\<open>DEBUG\<close>.

  \<^verbatim>\<open>BigNumber(v)\<close> of a number takes an integer below \<open>2\<^sup>3\<^sup>1\<close> as it is and any other
  finite number through \<^verbatim>\<open>String(v)\<close>. The decimal exponent of a double lies between
  \<open>-324\<close> and \<open>308\<close>, far inside the exponent range, which the constructor therefore never
  reaches.
\<close>

datatype BigNumber = BigNaN | BigInf bool | Big rat

definition is_integer :: "rat \<Rightarrow> bool" where
  "is_integer x \<longleftrightarrow> of_int \<lfloor>x\<rfloor> = x"

definition BigNumber_value :: "rat \<Rightarrow> rat" where
  "BigNumber_value x = (if is_integer x \<and> \<bar>x\<bar> < 2 ^ 31 then x else decimal_of_double x)"

fun BigNumber_of_number :: "number \<Rightarrow> BigNumber" where
  "BigNumber_of_number NaN = BigNaN"
| "BigNumber_of_number PInf = BigInf False"
| "BigNumber_of_number NInf = BigInf True"
| "BigNumber_of_number (Fin x) = Big (BigNumber_value x)"

text \<open>
  Every arithmetic result goes through the exponent range: with the value written as
  \<open>c \<sqdot> 10\<^sup>e\<close>, \<open>1 \<le> \<bar>c\<bar> < 10\<close>, it becomes an infinity for \<open>e > MAX_EXP\<close> and zero for
  \<open>e < MIN_EXP\<close>.
\<close>

definition MAX_EXP :: int where
  "MAX_EXP = 10000000"

definition MIN_EXP :: int where
  "MIN_EXP = - 10000000"

definition normalise :: "rat \<Rightarrow> BigNumber" where
  "normalise x =
     (if x = 0 then Big 0
      else if floor_log10 x > MAX_EXP then BigInf (x < 0)
      else if floor_log10 x < MIN_EXP then Big 0
      else Big x)"

text \<open>\<^verbatim>\<open>x.times(y)\<close> and \<^verbatim>\<open>x.plus(y)\<close> are exact within the exponent range.\<close>

fun BigNumber_times :: "BigNumber \<Rightarrow> BigNumber \<Rightarrow> BigNumber" where
  "BigNumber_times (Big x) (Big y) = normalise (x * y)"
| "BigNumber_times BigNaN b = BigNaN"
| "BigNumber_times a BigNaN = BigNaN"
| "BigNumber_times (Big x) (BigInf n) = (if x = 0 then BigNaN else BigInf ((x < 0) \<noteq> n))"
| "BigNumber_times (BigInf n) (Big y) = (if y = 0 then BigNaN else BigInf ((y < 0) \<noteq> n))"
| "BigNumber_times (BigInf n) (BigInf m) = BigInf (n \<noteq> m)"

fun BigNumber_plus :: "BigNumber \<Rightarrow> BigNumber \<Rightarrow> BigNumber" where
  "BigNumber_plus (Big x) (Big y) = normalise (x + y)"
| "BigNumber_plus BigNaN b = BigNaN"
| "BigNumber_plus a BigNaN = BigNaN"
| "BigNumber_plus (BigInf n) (BigInf m) = (if n = m then BigInf n else BigNaN)"
| "BigNumber_plus (BigInf n) b = BigInf n"
| "BigNumber_plus a (BigInf m) = BigInf m"

text \<open>
  \<^verbatim>\<open>x.div(y)\<close> rounds the quotient to 20 decimal places, a tie away from zero. A zero
  divisor is taken as \<open>+0\<close>.
\<close>

definition round_half_up :: "nat \<Rightarrow> rat \<Rightarrow> rat" where
  "round_half_up dp x = sgn x * of_int \<lfloor>\<bar>x\<bar> * 10 ^ dp + 1 / 2\<rfloor> / 10 ^ dp"

fun BigNumber_div :: "BigNumber \<Rightarrow> BigNumber \<Rightarrow> BigNumber" where
  "BigNumber_div (Big x) (Big y) =
     (if y = 0 then (if x = 0 then BigNaN else BigInf (x < 0))
      else normalise (round_half_up 20 (x / y)))"
| "BigNumber_div BigNaN b = BigNaN"
| "BigNumber_div a BigNaN = BigNaN"
| "BigNumber_div (BigInf n) (BigInf m) = BigNaN"
| "BigNumber_div (BigInf n) (Big y) = BigInf ((y < 0) \<noteq> n)"
| "BigNumber_div (Big x) (BigInf m) = Big 0"

text \<open>
  \<^verbatim>\<open>BigNumber(10).pow(n)\<close>. The library throws on an exponent that is finite and not an
  integer (its message goes on with the exponent, left out here). The power is built by
  repeated \<^verbatim>\<open>times\<close> and is therefore an infinity once \<open>\<bar>n\<bar>\<close> exceeds \<open>MAX_EXP\<close>. A
  negative exponent gives \<^verbatim>\<open>ONE.div(10 ** -n)\<close>, rounded like every quotient; an exponent
  that is not finite goes through \<^verbatim>\<open>Math.pow(10, n)\<close>.
\<close>

fun ten_pow :: "BigNumber \<Rightarrow> 'x thrown + BigNumber" where
  "ten_pow BigNaN = Inr BigNaN"
| "ten_pow (BigInf negative) = Inr (if negative then Big 0 else BigInf False)"
| "ten_pow (Big n) =
     (if \<not> is_integer n
      then Inl (Err (Error ''[BigNumber Error] Exponent not an integer''))
      else if n \<ge> 0
      then Inr (if n > of_int MAX_EXP then BigInf False else Big (10 ^ nat \<lfloor>n\<rfloor>))
      else Inr (BigNumber_div (Big 1)
                 (if - n > of_int MAX_EXP then BigInf False else Big (10 ^ nat \<lfloor>- n\<rfloor>))))"

text \<open>
  \<^verbatim>\<open>
  export const getBN = (value: number, decimals: number): BigNumber => {
    const decimalPart = value - Math.trunc(value);
    const integerPart = BigNumber(Math.trunc(value));

    const decimalE = BigNumber(decimalPart * 1e9);

    const sum = integerPart.times(BigNumber(1e9)).plus(decimalE);
    const resultE = sum.times(BigNumber(10).pow(BigNumber(decimals)));
    return resultE.div(BigNumber(1e9));
  };
  \<close>
\<close>

definition getBN :: "number \<Rightarrow> number \<Rightarrow> 'x thrown + BigNumber" where
  "getBN v decimals =
     (let decimalPart = number_minus v (Math_trunc v);
          integerPart = BigNumber_of_number (Math_trunc v);
          decimalE = BigNumber_of_number (number_times decimalPart (Fin (10 ^ 9)));
          v_sum =
            BigNumber_plus
              (BigNumber_times integerPart (BigNumber_of_number (Fin (10 ^ 9)))) decimalE
      in bind_thrown (ten_pow (BigNumber_of_number decimals)) (\<lambda>power.
         let resultE = BigNumber_times v_sum power
         in Inr (BigNumber_div resultE (BigNumber_of_number (Fin (10 ^ 9))))))"







section \<open>The error wrapper: results\<close>

text \<open>
  C5. For every operation passed to \<open>handleContractError\<close>: a fulfilled operation's value
  is returned unchanged; an operation rejecting with an \<open>Error\<close> makes the wrapper throw a
  \<open>ContractError\<close> that wraps the original error and, when a callback is supplied (and
  returns), carries the code the callback returns for that error; a rejection with a value
  that is not an \<open>Error\<close> is rethrown unwrapped.
\<close>

theorem handleContractError_cases:
  "(func () = Inr v \<longrightarrow> handleContractError func callback = Inr v) \<and>
   (func () = Inl (Err err) \<and> callback = None \<longrightarrow>
      handleContractError func callback = Inl (Err (ContractError err None))) \<and>
   (func () = Inl (Err err) \<and> callback = Some cb \<and> cb err = Inr code \<longrightarrow>
      handleContractError func callback = Inl (Err (ContractError err code))) \<and>
   (func () = Inl (NonError x) \<longrightarrow> handleContractError func callback = Inl (NonError x))"
  by (simp add: handleContractError_def)

theorem handleContractError_cases_witness:
  "handleContractError (\<lambda>_. Inr (7::nat) :: string thrown + nat) None = Inr 7 \<and>
   handleContractError (\<lambda>_. Inl (Err (Error ''revert'')) :: string thrown + nat) None
     = Inl (Err (ContractError (Error ''revert'') None)) \<and>
   handleContractError (\<lambda>_. Inl (Err (Error ''revert'')) :: string thrown + nat)
       (Some (\<lambda>e. Inr (Some (message e))))
     = Inl (Err (ContractError (Error ''revert'') (Some ''revert''))) \<and>
   handleContractError (\<lambda>_. Inl (NonError ''abort'') :: string thrown + nat)
       (Some (\<lambda>e. Inr (Some (message e))))
     = Inl (NonError ''abort'')"
  using
    handleContractError_cases [of "\<lambda>_. Inr (7::nat) :: string thrown + nat" 7 None]
    handleContractError_cases [of "\<lambda>_. Inl (Err (Error ''revert'')) :: string thrown + nat"
      _ None "Error ''revert''"]
    handleContractError_cases [of "\<lambda>_. Inl (Err (Error ''revert'')) :: string thrown + nat"
      _ "Some (\<lambda>e. Inr (Some (message e)))" "Error ''revert''"
      "\<lambda>e. Inr (Some (message e))" "Some ''revert''"]
    handleContractError_cases [of "\<lambda>_. Inl (NonError ''abort'') :: string thrown + nat"
      _ "Some (\<lambda>e. Inr (Some (message e)))" _ _ _ "''abort''"]
  by simp

section \<open>The constructors: cliff and cliff amount\<close>

lemma bind_thrown_InrE:
  assumes "bind_thrown m f = Inr c"
  obtains v where "m = Inr v" and "f v = Inr c"
  using assms by (cases m) (simp_all add: bind_thrown_def)

lemma EvmContract_new_fields:
  assumes "EvmContract_new elib estream = Inr c"
  shows "toNumber elib (StreamAbiResult.start estream) = Inr (Contract.start c)"
    and "toNumber elib (StreamAbiResult.start estream) = Inr (Contract.cliff c)"
    and "Contract.cliffAmount c
        = BigNumber_of_string elib (toString elib (StreamAbiResult.cliff_amount estream))"
  using assms unfolding EvmContract_new_def
  by (elim bind_thrown_InrE; auto simp: Let_def)+

lemma decimal_value_1000: "decimal_value ''1000'' = 1000"
  by (simp add: decimal_value_def digit_value_def)

lemma decimal_value_100: "decimal_value ''100'' = 100"
  by (simp add: decimal_value_def digit_value_def)

text \<open>
  C10. Every stream built from an Aptos \<open>StreamResource\<close> or from an EVM \<open>StreamAbiResult\<close>
  has its \<open>cliff\<close> equal to its \<open>start\<close>: both are read from the backend's \<open>start\<close> (neither
  backend type has a cliff timestamp to read), while \<open>cliffAmount\<close> is the backend's
  \<open>cliff_amount\<close>. The EVM constructor can throw in \<open>toNumber()\<close>; the statement is about the
  streams it constructs.
\<close>

theorem constructors_cliff_is_start:
  "Contract.cliff (Contract_new lib stream tid)
     = Contract.start (Contract_new lib stream tid) \<and>
   Contract.start (Contract_new lib stream tid) = parseInt lib (StreamResource.start stream) \<and>
   Contract.cliffAmount (Contract_new lib stream tid)
     = BN_of_string lib (StreamResource.cliff_amount stream) \<and>
   (EvmContract_new elib estream = Inr c \<longrightarrow>
      Contract.cliff c = Contract.start c \<and>
      toNumber elib (StreamAbiResult.start estream) = Inr (Contract.start c) \<and>
      Contract.cliffAmount c
        = BigNumber_of_string elib (toString elib (StreamAbiResult.cliff_amount estream)))"
proof -
  have evm: "Contract.cliff c = Contract.start c \<and>
      toNumber elib (StreamAbiResult.start estream) = Inr (Contract.start c) \<and>
      Contract.cliffAmount c
        = BigNumber_of_string elib (toString elib (StreamAbiResult.cliff_amount estream))"
    if "EvmContract_new elib estream = Inr c"
    using EvmContract_new_fields [OF that] by simp
  show ?thesis
    using evm by (simp add: Contract_new_def)
qed

theorem constructors_cliff_is_start_witness:
  "Contract.cliff (Contract_new sample_aptos_lib sample_resource ''0x1::coin::T'') = 1000 \<and>
   Contract.start (Contract_new sample_aptos_lib sample_resource ''0x1::coin::T'') = 1000 \<and>
   Contract.cliffAmount (Contract_new sample_aptos_lib sample_resource ''0x1::coin::T'') = 100 \<and>
   (\<exists>c. EvmContract_new sample_evm_lib sample_abi_result = Inr c \<and>
        Contract.cliff c = 1000 \<and> Contract.start c = 1000 \<and> Contract.cliffAmount c = 100)"
proof -
  obtain c where c: "EvmContract_new sample_evm_lib sample_abi_result = Inr c"
    by (simp add: EvmContract_new_def bind_thrown_def sample_evm_lib_def
        sample_abi_result_def Let_def)
  have tn: "toNumber sample_evm_lib (StreamAbiResult.start sample_abi_result) = Inr 1000"
    by (simp add: sample_evm_lib_def sample_abi_result_def)
  have ca: "BigNumber_of_string sample_evm_lib
      (toString sample_evm_lib (StreamAbiResult.cliff_amount sample_abi_result)) = 100"
    by (simp add: sample_evm_lib_def sample_abi_result_def)
  have ap: "parseInt sample_aptos_lib (StreamResource.start sample_resource) = 1000"
    "BN_of_string sample_aptos_lib (StreamResource.cliff_amount sample_resource) = 100"
    by (simp_all add: sample_aptos_lib_def sample_resource_def decimal_value_1000
        decimal_value_100)
  show ?thesis
    using constructors_cliff_is_start
      [of sample_aptos_lib sample_resource "''0x1::coin::T''" sample_evm_lib
        sample_abi_result c]
      c tn ca ap
    by auto
qed

section \<open>The unlock calculation: the cap\<close>

lemma cap_shape:
  "(if A then d else if B then 0 else if C then d else min X d) \<le> (d::nat)"
  by simp

lemma calculateUnlocked_le:
  "calculateUnlocked d c ca e t l p a f \<le> d"
  unfolding calculateUnlocked_def Let_def by (rule cap_shape)

lemma calculateUnlockedAmount_le:
  "calculateUnlockedAmount stream t \<le> Contract.depositedAmount stream"
  unfolding calculateUnlockedAmount_def Let_def by (rule cap_shape)

text \<open>
  C8. For every stream and every timestamp, however large, the unlocked amount is at most
  the deposited amount, for the Aptos \<open>Contract.unlocked\<close> and for \<open>EvmContract.unlocked\<close>.
\<close>

theorem unlocked_le_depositedAmount:
  "Contract_unlocked this t \<le> Contract.depositedAmount this \<and>
   EvmContract_unlocked that t \<le> Contract.depositedAmount that"
  unfolding Contract_unlocked_def EvmContract_unlocked_def
  by (intro conjI calculateUnlocked_le calculateUnlockedAmount_le)

section \<open>The Solana client: running an action\<close>

lemma bindA_InrE:
  assumes "bindA m f w = (Inr r, w')"
  obtains v w1 where "m w = (Inr v, w1)" and "f v w1 = (Inr r, w')"
  using assms by (auto simp: bindA_def split: prod.splits sum.splits)

lemma bindA_cases:
  assumes "bindA m f w = (r, w')"
  obtains (fail) e where "m w = (Inl e, w')" and "r = Inl e"
  | (ok) v w1 where "m w = (Inr v, w1)" and "f v w1 = (r, w')"
  using assms by (auto simp: bindA_def split: prod.splits sum.splits)

lemma liftA_Inr: "liftA r w = (Inr v, w1) \<longleftrightarrow> r = Inr v \<and> w1 = w"
  by (auto simp: liftA_def)

lemma returnA_Inr: "returnA x w = (Inr v, w1) \<longleftrightarrow> x = v \<and> w1 = w"
  by (auto simp: returnA_def)

lemma PublicKey_new_Inr: "PublicKey_new this s = Inr k \<Longrightarrow> k = PublicKey s"
  by (auto simp: PublicKey_new_def split: if_splits)

lemma keeps_logD: "keeps_log m \<Longrightarrow> m w = (r, w') \<Longrightarrow> submitted w' = submitted w"
  by (auto simp: keeps_log_def)

lemma keeps_log_returnA [intro!]: "keeps_log (returnA v)"
  by (simp add: keeps_log_def returnA_def)

lemma keeps_log_throwA [intro!]: "keeps_log (throwA e)"
  by (simp add: keeps_log_def throwA_def)

lemma keeps_log_liftA [intro!]: "keeps_log (liftA r)"
  by (simp add: keeps_log_def liftA_def)

lemma keeps_log_read [intro!]: "keeps_log (\<lambda>w. (f w, w))"
  by (simp add: keeps_log_def)

lemma keeps_log_generate [intro!]: "keeps_log (generate this)"
  by (simp add: keeps_log_def generate_def)

lemma keeps_log_latestBlockhash [intro!]: "keeps_log (latestBlockhash this)"
  by (simp add: keeps_log_def latestBlockhash_def)

lemma keeps_log_bindA [intro!]:
  assumes "keeps_log m" and "\<And>v. keeps_log (f v)"
  shows "keeps_log (bindA m f)"
  unfolding keeps_log_def
proof (intro allI impI)
  fix w r w'
  assume "bindA m f w = (r, w')"
  then show "submitted w' = submitted w"
  proof (cases rule: bindA_cases)
    case (fail e)
    with assms(1) show ?thesis by (auto dest: keeps_logD)
  next
    case (ok v w1)
    with assms show ?thesis by (metis keeps_logD)
  qed
qed

lemma keeps_log_prepareStreamTransaction: "keeps_log (prepareStreamTransaction this r data cfg)"
  unfolding prepareStreamTransaction_def Let_def
  by (auto split: option.split)

lemma prepareStreamTransaction_instructions:
  assumes "prepareStreamTransaction this r data cfg w = (Inr (t, md), w')"
  shows "\<exists>d a. instructions t = [createStreamInstruction d (programId this) a]"
proof (cases "signer_publicKey (ICreateStreamSolanaExt.sender cfg)")
  case None
  with assms show ?thesis
    by (simp add: prepareStreamTransaction_def Let_def throwA_def)
next
  case (Some sender_key)
  from assms show ?thesis
    unfolding prepareStreamTransaction_def Let_def Some option.case
    apply (elim bindA_InrE)
    apply (simp only: liftA_Inr returnA_Inr)
    apply (auto simp: partialSign_def)
    done
qed

lemma keeps_log_prepare_batch: "keeps_log (prepare_batch this data cfg rs acc)"
proof (induction rs arbitrary: acc)
  case Nil
  show ?case by auto
next
  case (Cons r rs)
  obtain ms m2r batch where acc: "acc = (ms, m2r, batch)"
    by (cases acc) auto
  show ?case
    unfolding acc prepare_batch.simps
    by (intro keeps_log_bindA keeps_log_prepareStreamTransaction) (auto simp: Cons.IH)
qed

lemma prepare_batch_items:
  assumes "prepare_batch this data cfg rs (ms, m2r, batch) w = (Inr (ms', m2r', batch'), w')"
  shows "\<exists>new. batch' = batch @ new \<and>
     map BatchItem.recipient new = map IRecipient.recipient rs \<and>
     list_all (creation_item this) new"
  using assms
proof (induction rs arbitrary: ms m2r batch w)
  case Nil
  then show ?case by (simp add: returnA_def)
next
  case (Cons r rs)
  from Cons.prems obtain t md w1 where
    p: "prepareStreamTransaction this r data cfg w = (Inr (t, md), w1)"
    and rest: "prepare_batch this data cfg rs
       (ms @ [md], update_entry (toBase58 (publicKey md)) r m2r,
        batch @ [\<lparr> BatchItem.tx = t, BatchItem.recipient = IRecipient.recipient r \<rparr>]) w1
       = (Inr (ms', m2r', batch'), w')"
    by (auto elim!: bindA_InrE)
  from Cons.IH [OF rest] obtain new where
    new: "batch' = (batch @ [\<lparr> BatchItem.tx = t, BatchItem.recipient = IRecipient.recipient r \<rparr>]) @ new"
    "map BatchItem.recipient new = map IRecipient.recipient rs"
    "list_all (creation_item this) new"
    by blast
  from prepareStreamTransaction_instructions [OF p]
  have "creation_item this \<lparr> BatchItem.tx = t, BatchItem.recipient = IRecipient.recipient r \<rparr>"
    by (simp add: creation_item_def)
  with new show ?case
    by (intro exI [of _ "\<lparr> BatchItem.tx = t, BatchItem.recipient = IRecipient.recipient r \<rparr> # new"])
      simp
qed


lemma foldl_amount:
  "foldl (\<lambda>acc r. IRecipient.amount r + acc) a rs = a + sum_list (map IRecipient.amount rs)"
  by (induction rs arbitrary: a) auto

lemma send_cases:
  assumes "sendAndConfirmStreamRawTransaction this item w = (r, w')"
  obtains (unserialised) e where "serialize this (BatchItem.tx item) = Some e"
      and "r = Inl \<lparr> BatchItemError.recipient = BatchItem.recipient item,
                     BatchItemError.error = error_text this e \<rparr>"
      and "w' = w"
  | (rejected) e where "serialize this (BatchItem.tx item) = None"
      and "sendAndConfirmRawTransaction this w (BatchItem.tx item) = Inl e"
      and "r = Inl \<lparr> BatchItemError.recipient = BatchItem.recipient item,
                     BatchItemError.error = error_text this e \<rparr>"
      and "w' = w\<lparr>submitted := submitted w @ [BatchItem.tx item]\<rparr>"
  | (fulfilled) s where "serialize this (BatchItem.tx item) = None"
      and "sendAndConfirmRawTransaction this w (BatchItem.tx item) = Inr s"
      and "r = Inr \<lparr> BatchItem.tx = BatchItem.tx item,
                     BatchItem.recipient = BatchItem.recipient item,
                     BatchItemSuccess.signature = s \<rparr>"
      and "w' = w\<lparr>submitted := submitted w @ [BatchItem.tx item]\<rparr>"
  using assms
  by (auto simp: sendAndConfirmStreamRawTransaction_def submit_def
      split: option.splits sum.splits prod.splits)

lemma allSettled_send:
  assumes "allSettled (map (sendAndConfirmStreamRawTransaction this) items) w = (rs, w')"
  shows "list_all2 settled_for items rs \<and>
     submitted w' = submitted w @
       [BatchItem.tx item. item \<leftarrow> items, serialize this (BatchItem.tx item) = None]"
  using assms
proof (induction items arbitrary: w rs w')
  case Nil
  then show ?case by simp
next
  case (Cons item items)
  obtain r w1 where r: "sendAndConfirmStreamRawTransaction this item w = (r, w1)"
    by (cases "sendAndConfirmStreamRawTransaction this item w") auto
  obtain rs' w2 where rs': "allSettled (map (sendAndConfirmStreamRawTransaction this) items) w1 = (rs', w2)"
    by (cases "allSettled (map (sendAndConfirmStreamRawTransaction this) items) w1") auto
  from Cons.prems r rs' have eq: "rs = r # rs'" "w' = w2"
    by simp_all
  from Cons.IH [OF rs'] have ih: "list_all2 settled_for items rs'"
    "submitted w2 = submitted w1 @
       [BatchItem.tx item. item \<leftarrow> items, serialize this (BatchItem.tx item) = None]"
    by simp_all
  from r have "settled_for item r \<and>
      submitted w1 = submitted w @
        (if serialize this (BatchItem.tx item) = None then [BatchItem.tx item] else [])"
    by (cases rule: send_cases) (simp_all add: settled_for_def)
  with ih eq show ?case
    by simp
qed

lemma partition_length:
  "length [v. Inr v \<leftarrow> rs] + length [e. Inl e \<leftarrow> rs] = length rs"
  by (induction rs) (auto split: sum.splits)


lemma sign_with_instructions [simp]: "instructions (sign_with signer t) = instructions t"
  by (simp add: sign_with_def partialSign_def split: option.split)

lemma signAll_Inr:
  assumes "signAllTransactionWithRecipients this v_sender batch = Inr signed"
  shows "signed = map (\<lambda>item. item\<lparr>BatchItem.tx := sign_with v_sender (BatchItem.tx item)\<rparr>) batch"
  using assms
  by (auto simp: signAllTransactionWithRecipients_def Let_def split: if_splits option.splits)

lemma signed_items:
  assumes "map BatchItem.recipient batch = rs" and "list_all (creation_item this) batch"
  shows "map BatchItem.recipient
           (map (\<lambda>item. item\<lparr>BatchItem.tx := sign_with v_sender (BatchItem.tx item)\<rparr>) batch) = rs \<and>
         list_all (creation_item this)
           (map (\<lambda>item. item\<lparr>BatchItem.tx := sign_with v_sender (BatchItem.tx item)\<rparr>) batch)"
  using assms by (auto simp: list_all_iff creation_item_def comp_def)

lemma createMultiple_batch_no_key:
  assumes "signer_publicKey (ICreateStreamSolanaExt.sender ext) = None"
    and "createMultiple_batch this data ext w = (r, w1)"
  shows "w1 = w \<and> (\<exists>e. r = Inl e)"
  using assms by (auto simp: createMultiple_batch_def Let_def throwA_def)

lemma createMultiple_batch_not_native:
  assumes nat: "ICreateStreamSolanaExt.isNative ext \<noteq> Some True"
    and run: "createMultiple_batch this data ext w = (r, w1)"
  shows "submitted w1 = submitted w \<and>
     (\<forall>ms m2r items. r = Inr (ms, m2r, items) \<longrightarrow>
        map BatchItem.recipient items
          = map IRecipient.recipient (ICreateMultipleStreamData.recipients data) \<and>
        list_all (creation_item this) items)"
proof (cases "signer_publicKey (ICreateStreamSolanaExt.sender ext)")
  case None
  from createMultiple_batch_no_key [OF None run] show ?thesis by auto
next
  case (Some key)
  from nat have n: "(case ICreateStreamSolanaExt.isNative ext of Some b \<Rightarrow> b | None \<Rightarrow> False) = False"
    by (cases "ICreateStreamSolanaExt.isNative ext") auto
  from run have run1:
    "bindA (prepare_batch this data
              \<lparr> ICreateStreamSolanaExt.sender = ICreateStreamSolanaExt.sender ext,
                ICreateStreamSolanaExt.partner = ICreateStreamSolanaExt.partner ext,
                ICreateStreamSolanaExt.isNative = None \<rparr>
              (ICreateMultipleStreamData.recipients data) ([], [], []))
       (\<lambda>(v_metadatas, v_metadataToRecipient, batch).
     bindA (returnA batch) (\<lambda>batch.
     bindA (liftA (signAllTransactionWithRecipients this (ICreateStreamSolanaExt.sender ext) batch))
       (\<lambda>signed_batch.
     bindA (returnA signed_batch) (\<lambda>signed_batch.
     returnA (v_metadatas, v_metadataToRecipient, signed_batch))))) w = (r, w1)"
    unfolding createMultiple_batch_def Let_def Some option.case n if_False .
  from run1 show ?thesis
  proof (cases rule: bindA_cases)
    case (fail e)
    with keeps_logD [OF keeps_log_prepare_batch fail(1)] show ?thesis by simp
  next
    case (ok v w0)
    obtain ms m2r batch0 where v: "v = (ms, m2r, batch0)"
      by (cases v) auto
    from keeps_logD [OF keeps_log_prepare_batch ok(1)] have log0: "submitted w0 = submitted w" .
    from prepare_batch_items [OF ok(1) [unfolded v]] have
      b0: "map BatchItem.recipient batch0
             = map IRecipient.recipient (ICreateMultipleStreamData.recipients data)"
        "list_all (creation_item this) batch0"
      by auto
    show ?thesis
    proof (cases "signAllTransactionWithRecipients this (ICreateStreamSolanaExt.sender ext) batch0")
      case (Inl e)
      with ok(2) v log0 show ?thesis
        by (auto simp: bindA_def returnA_def liftA_def)
    next
      case (Inr signed)
      from signAll_Inr [OF Inr] signed_items [OF b0] ok(2) v log0 Inr show ?thesis
        by (auto simp: bindA_def returnA_def liftA_def)
    qed
  qed
qed


lemma createMultiple_batch_native:
  assumes nat: "ICreateStreamSolanaExt.isNative ext = Some True"
    and key: "signer_publicKey (ICreateStreamSolanaExt.sender ext) = Some key"
    and run: "createMultiple_batch (this :: ('i, 'x, 'a) SolanaStreamClient) data ext w = (r, w1)"
  shows "(submitted w1 = submitted w \<and> (\<exists>e. r = Inl e)) \<or>
    (\<exists>nis hash w0.
       submitted w0 = submitted w \<and>
       prepareWrappedAccount this w0 key
         (sum_list (map IRecipient.amount (ICreateMultipleStreamData.recipients data))) = Inr nis \<and>
       submitted w1
         = submitted w @ [wrap_transaction (ICreateStreamSolanaExt.sender ext) key nis hash] \<and>
       ((\<exists>e. sendAndConfirmRawTransaction this w0
               (wrap_transaction (ICreateStreamSolanaExt.sender ext) key nis hash) = Inl e \<and>
             r = Inl (NonError (Inl \<lparr> BatchItemError.recipient = toBase58 key,
                                       BatchItemError.error = error_text this e \<rparr>))) \<or>
        (\<exists>s ms m2r items.
             sendAndConfirmRawTransaction this w0
               (wrap_transaction (ICreateStreamSolanaExt.sender ext) key nis hash) = Inr s \<and>
             r = Inr (ms, m2r, items) \<and>
             map BatchItem.recipient items
               = map IRecipient.recipient (ICreateMultipleStreamData.recipients data) \<and>
             list_all (creation_item this) items)))"
    (is "?quiet \<or> ?wrapped")
proof -
  define v_sender where "v_sender = ICreateStreamSolanaExt.sender ext"
  define total where
    "total = sum_list (map IRecipient.amount (ICreateMultipleStreamData.recipients data))"
  define sgn where
    "sgn = (\<lambda>item :: 'i BatchItem. item\<lparr>BatchItem.tx := sign_with v_sender (BatchItem.tx item)\<rparr>)"
  have tot: "foldl (\<lambda>acc r. IRecipient.amount r + acc) 0 (ICreateMultipleStreamData.recipients data)
      = total"
    by (simp add: foldl_amount total_def)
  from nat have n: "(case ICreateStreamSolanaExt.isNative ext of Some b \<Rightarrow> b | None \<Rightarrow> False) = True"
    by simp
  from run have run1:
    "bindA (prepare_batch this data
              \<lparr> ICreateStreamSolanaExt.sender = v_sender,
                ICreateStreamSolanaExt.partner = ICreateStreamSolanaExt.partner ext,
                ICreateStreamSolanaExt.isNative = None \<rparr>
              (ICreateMultipleStreamData.recipients data) ([], [], []))
       (\<lambda>(v_metadatas, v_metadataToRecipient, batch).
     bindA (bindA (\<lambda>w. (prepareWrappedAccount this w key total, w)) (\<lambda>nativeInstructions.
            bindA (latestBlockhash this) (\<lambda>hash.
            returnA
              (batch @ [\<lparr> BatchItem.tx =
                           \<lparr> feePayer = key,
                             recentBlockhash = blockhash hash,
                             tx_lastValidBlockHeight = lastValidBlockHeight hash,
                             instructions = nativeInstructions,
                             signatures = [] \<rparr>,
                         BatchItem.recipient = toBase58 key \<rparr>]))))
       (\<lambda>batch.
     bindA (liftA (signAllTransactionWithRecipients this v_sender batch)) (\<lambda>signed_batch.
     bindA (case rev signed_batch of
              [] \<Rightarrow> throwA (Err (Error ''TypeError''))
            | prepareTx # popped \<Rightarrow>
                bindA (await_item (sendAndConfirmStreamRawTransaction this prepareTx))
                  (\<lambda>_. returnA (rev popped)))
       (\<lambda>signed_batch.
     returnA (v_metadatas, v_metadataToRecipient, signed_batch))))) w = (r, w1)"
    unfolding createMultiple_batch_def Let_def key option.case n if_True tot v_sender_def .
  from run1 show ?thesis
  proof (cases rule: bindA_cases)
    case (fail e)
    with keeps_logD [OF keeps_log_prepare_batch fail(1)] show ?thesis by simp
  next
    case (ok v w0)
    obtain ms m2r batch0 where v: "v = (ms, m2r, batch0)"
      by (cases v) auto
    from keeps_logD [OF keeps_log_prepare_batch ok(1)] have log0: "submitted w0 = submitted w" .
    from prepare_batch_items [OF ok(1) [unfolded v]] have
      b0: "map BatchItem.recipient batch0
             = map IRecipient.recipient (ICreateMultipleStreamData.recipients data)"
        "list_all (creation_item this) batch0"
      by auto
    note rest = ok(2) [unfolded v prod.case]
    show ?thesis
    proof (cases "prepareWrappedAccount this w0 key total")
      case (Inl e)
      with rest log0 have "?quiet"
        by (auto simp: bindA_def)
      then show ?thesis ..
    next
      case nis: (Inr nis)
      show ?thesis
      proof (cases "latestBlockhash this w0")
        case (Pair h wh)
        then have wh: "wh = w0"
          by (simp add: latestBlockhash_def)
        show ?thesis
        proof (cases h)
          case (Inl e)
          with rest log0 nis Pair wh have "?quiet"
            by (auto simp: bindA_def)
          then show ?thesis ..
        next
          case hash: (Inr hash)
          define wrapItem where
            "wrapItem = \<lparr> BatchItem.tx =
                           \<lparr> feePayer = key,
                             recentBlockhash = blockhash hash,
                             tx_lastValidBlockHeight = lastValidBlockHeight hash,
                             instructions = nis,
                             signatures = [] \<rparr>,
                         BatchItem.recipient = toBase58 key \<rparr>"
          from rest nis Pair wh hash have rest2:
            "bindA (liftA (signAllTransactionWithRecipients this v_sender (batch0 @ [wrapItem])))
               (\<lambda>signed_batch.
             bindA (case rev signed_batch of
                      [] \<Rightarrow> throwA (Err (Error ''TypeError''))
                    | prepareTx # popped \<Rightarrow>
                        bindA (await_item (sendAndConfirmStreamRawTransaction this prepareTx))
                          (\<lambda>_. returnA (rev popped)))
               (\<lambda>signed_batch.
             returnA (ms, m2r, signed_batch))) w0 = (r, w1)"
            by (simp add: bindA_def returnA_def wrapItem_def)
          show ?thesis
          proof (cases "signAllTransactionWithRecipients this v_sender (batch0 @ [wrapItem])")
            case (Inl e)
            with rest2 log0 have "?quiet"
              by (auto simp: bindA_def liftA_def)
            then show ?thesis ..
          next
            case (Inr signed)
            from signAll_Inr [OF Inr] have signed: "rev signed = sgn wrapItem # rev (map sgn batch0)"
              by (simp add: sgn_def)
            have wtx: "BatchItem.tx (sgn wrapItem) = wrap_transaction v_sender key nis hash"
              "BatchItem.recipient (sgn wrapItem) = toBase58 key"
              by (simp_all add: sgn_def wrapItem_def wrap_transaction_def)
            obtain sr ws where
              send: "sendAndConfirmStreamRawTransaction this (sgn wrapItem) w0 = (sr, ws)"
              by (cases "sendAndConfirmStreamRawTransaction this (sgn wrapItem) w0") auto
            from rest2 Inr signed send have rest3:
              "(case sr of
                  Inl e \<Rightarrow> (Inl (NonError (Inl e)), ws)
                | Inr s \<Rightarrow> (Inr (ms, m2r, map sgn batch0), ws)) = (r, w1)"
              by (simp add: bindA_def liftA_def returnA_def await_item_def split: sum.splits)
            from signed_items [OF b0, of v_sender] have items:
              "map BatchItem.recipient (map sgn batch0)
                 = map IRecipient.recipient (ICreateMultipleStreamData.recipients data)"
              "list_all (creation_item this) (map sgn batch0)"
              by (simp_all add: sgn_def)
            from send show ?thesis
            proof (cases rule: send_cases)
              case (unserialised e)
              with rest3 log0 have "?quiet" by auto
              then show ?thesis ..
            next
              case (rejected e)
              with rest3 log0 nis wtx have "?wrapped"
                unfolding v_sender_def [symmetric] total_def [symmetric]
                by (intro exI [of _ nis] exI [of _ hash] exI [of _ w0]) auto
              then show ?thesis ..
            next
              case (fulfilled s)
              with rest3 log0 nis wtx items have "?wrapped"
                unfolding v_sender_def [symmetric] total_def [symmetric]
                by (intro exI [of _ nis] exI [of _ hash] exI [of _ w0]) auto
              then show ?thesis ..
            qed
          qed
        qed
      qed
    qed
  qed
qed

section \<open>The Solana client: the mints of create\<close>

text \<open>
  C9. In every call of the Solana \<open>create\<close> that returns, the sender, recipient, treasury
  and partner token accounts of the creation instruction are derived from the
  caller-supplied mint when \<open>isNative\<close> is true and from \<open>NATIVE_MINT\<close> when it is false
  (or absent), while the mint account passed to the instruction is the caller-supplied
  mint in both cases.
\<close>

theorem create_mints:
  assumes "create this data ext w = (Inr resp, w')"
  shows "\<exists>d accs sender_key derivation_mint.
     (ICreateStreamSolanaExt.isNative ext = Some True
        \<longrightarrow> derivation_mint = PublicKey (ICreateStreamData.tokenId data)) \<and>
     (ICreateStreamSolanaExt.isNative ext \<noteq> Some True \<longrightarrow> derivation_mint = NATIVE_MINT) \<and>
     CreateResponse.ixs resp = [createStreamInstruction d (programId this) accs] \<and>
     signer_publicKey (ICreateStreamSolanaExt.sender ext) = Some sender_key \<and>
     CreateStreamInstructionAccounts.senderTokens accs = ata this derivation_mint sender_key \<and>
     CreateStreamInstructionAccounts.recipientTokens accs
       = ata this derivation_mint (PublicKey (ICreateStreamData.recipient data)) \<and>
     CreateStreamInstructionAccounts.streamflowTreasuryTokens accs
       = ata this derivation_mint (STREAMFLOW_TREASURY_PUBLIC_KEY this) \<and>
     CreateStreamInstructionAccounts.partnerTokens accs
       = ata this derivation_mint (CreateStreamInstructionAccounts.partner accs) \<and>
     CreateStreamInstructionAccounts.mint accs = PublicKey (ICreateStreamData.tokenId data)"
proof (cases "signer_publicKey (ICreateStreamSolanaExt.sender ext)")
  case None
  with assms show ?thesis
    by (simp add: create_def Let_def throwA_def)
next
  case (Some sender_key)
  from assms show ?thesis
    unfolding create_def Let_def Some option.case
    apply (elim bindA_InrE)
    apply (simp only: liftA_Inr returnA_Inr)
    apply (auto dest!: PublicKey_new_Inr split: if_splits option.splits)
    done
qed

lemma sample_create_not_native:
  "\<exists>resp w'. create sample_client sample_create_data (sample_ext False) sample_world = (Inr resp, w')"
  by (simp add: create_def sample_client_def sample_create_data_def sample_ext_def
      sample_world_def Let_def bindA_def liftA_def returnA_def throwA_def PublicKey_new_def
      generate_def BN_new_def falsy_string_def latestBlockhash_def sign_def sign_with_def
      partialSign_def tx_signature_def submit_def NATIVE_MINT_def)

lemma sample_create_native:
  "\<exists>resp w'. create sample_client sample_create_data (sample_ext True) sample_world = (Inr resp, w')"
  by (simp add: create_def sample_client_def sample_create_data_def sample_ext_def
      sample_world_def Let_def bindA_def liftA_def returnA_def throwA_def PublicKey_new_def
      generate_def BN_new_def falsy_string_def latestBlockhash_def sign_def sign_with_def
      partialSign_def tx_signature_def submit_def)


theorem create_mints_witness:
  "(\<exists>resp w' d accs.
      create sample_client sample_create_data (sample_ext True) sample_world = (Inr resp, w') \<and>
      CreateResponse.ixs resp = [createStreamInstruction d (PublicKey ''strm'') accs] \<and>
      CreateStreamInstructionAccounts.senderTokens accs = PublicKey ''USDC/W'' \<and>
      CreateStreamInstructionAccounts.recipientTokens accs = PublicKey ''USDC/R'' \<and>
      CreateStreamInstructionAccounts.streamflowTreasuryTokens accs = PublicKey ''USDC/treasury'' \<and>
      CreateStreamInstructionAccounts.mint accs = PublicKey ''USDC'') \<and>
   (\<exists>resp w' d accs.
      create sample_client sample_create_data (sample_ext False) sample_world = (Inr resp, w') \<and>
      CreateResponse.ixs resp = [createStreamInstruction d (PublicKey ''strm'') accs] \<and>
      CreateStreamInstructionAccounts.senderTokens accs
        = PublicKey ''So11111111111111111111111111111111111111112/W'' \<and>
      CreateStreamInstructionAccounts.mint accs = PublicKey ''USDC'')"
proof -
  obtain r1 w1 where
    r1: "create sample_client sample_create_data (sample_ext True) sample_world = (Inr r1, w1)"
    using sample_create_native by blast
  obtain r2 w2 where
    r2: "create sample_client sample_create_data (sample_ext False) sample_world = (Inr r2, w2)"
    using sample_create_not_native by blast
  have c: "programId sample_client = PublicKey ''strm''"
    "ata sample_client m k = PublicKey (toBase58 m @ ''/'' @ toBase58 k)"
    "STREAMFLOW_TREASURY_PUBLIC_KEY sample_client = PublicKey ''treasury''" for m k
    by (simp_all add: sample_client_def)
  have d: "ICreateStreamSolanaExt.isNative (sample_ext b) = Some b"
    "signer_publicKey (ICreateStreamSolanaExt.sender (sample_ext b)) = Some (PublicKey ''W'')"
    "ICreateStreamData.tokenId sample_create_data = ''USDC''"
    "ICreateStreamData.recipient sample_create_data = ''R''" for b
    by (simp_all add: sample_ext_def sample_create_data_def)
  from create_mints [OF r1] create_mints [OF r2] r1 r2
  show ?thesis
    unfolding c d NATIVE_MINT_def by (simp; blast)
qed

section \<open>The Solana client: get\<close>

lemma update_entry_keys: "fst ` set (update_entry k v ps) = insert k (fst ` set ps)"
  by (induction ps) auto

lemma update_entry_distinct:
  "distinct (map fst ps) \<Longrightarrow> distinct (map fst (update_entry k v ps))"
proof (induction ps)
  case Nil
  then show ?case by simp
next
  case (Cons p ps)
  show ?case
  proof (cases "fst p = k")
    case True
    with Cons.prems show ?thesis by simp
  next
    case False
    with Cons show ?thesis by (simp add: update_entry_keys)
  qed
qed

lemma collect_streams_keys:
  "collect_streams codec accounts streams = Inr result \<Longrightarrow> distinct (map fst streams) \<Longrightarrow>
   distinct (map fst result) \<and>
   fst ` set result = fst ` set streams \<union> (toBase58 \<circ> fst) ` set accounts"
proof (induction accounts arbitrary: streams)
  case Nil
  then show ?case by simp
next
  case (Cons a accounts)
  from Cons.prems(1) obtain decoded where
    rest: "collect_streams codec accounts (update_entry (toBase58 (fst a)) decoded streams)
             = Inr result"
    by (auto elim: bind_thrown_InrE)
  from Cons.IH [OF rest update_entry_distinct [OF Cons.prems(2)]]
  show ?case by (simp add: update_entry_keys Un_commute insert_commute)
qed

lemma mset_insert_sorted: "mset (insert_sorted cmp x ys) = add_mset x (mset ys)"
  by (induction ys) auto

lemma mset_foldl_insert_sorted:
  "mset (foldl (\<lambda>sorted x. insert_sorted cmp x sorted) acc xs) = mset acc + mset xs"
  by (induction xs arbitrary: acc) (auto simp: mset_insert_sorted)

lemma mset_sort_entries: "mset (sort_entries cmp xs) = mset xs"
  by (simp add: sort_entries_def mset_foldl_insert_sorted)

lemma sort_entries_keys:
  "distinct (map fst (sort_entries cmp xs)) = distinct (map fst xs)"
  "set (sort_entries cmp xs) = set xs"
proof -
  have "mset (map fst (sort_entries cmp xs)) = mset (map fst xs)"
    by (simp add: mset_sort_entries)
  then show "distinct (map fst (sort_entries cmp xs)) = distinct (map fst xs)"
    by (rule mset_eq_imp_distinct_iff)
  show "set (sort_entries cmp xs) = set xs"
    using mset_sort_entries [of cmp xs] by (rule mset_eq_setD)
qed

lemma get_keys:
  assumes "get this codec wallet v_type v_direction w = Inr result"
  shows "distinct (map fst result)"
    and "v_direction = Some Direction_All \<or> v_direction = None \<Longrightarrow>
         v_type = Some Type_All \<or> v_type = None \<Longrightarrow>
         getProgramAccounts this w wallet (STREAM_STRUCT_OFFSET_SENDER this) = Inr outgoing \<Longrightarrow>
         getProgramAccounts this w wallet (STREAM_STRUCT_OFFSET_RECIPIENT this) = Inr incoming \<Longrightarrow>
         address \<in> fst ` (set outgoing \<union> set incoming) \<Longrightarrow>
         count_list (map fst result) (toBase58 address) = 1"
proof -
  from assms obtain accounts streams where
    acc: "(if (case v_direction of Some d \<Rightarrow> d | None \<Rightarrow> Direction_All) = Direction_All
         then
           bind_thrown (getProgramAccounts this w wallet (STREAM_STRUCT_OFFSET_SENDER this))
             (\<lambda>outgoingAccounts.
           bind_thrown (getProgramAccounts this w wallet (STREAM_STRUCT_OFFSET_RECIPIENT this))
             (\<lambda>incomingAccounts.
           Inr (outgoingAccounts @ incomingAccounts)))
         else
           getProgramAccounts this w wallet
             (if (case v_direction of Some d \<Rightarrow> d | None \<Rightarrow> Direction_All) = Outgoing
              then STREAM_STRUCT_OFFSET_SENDER this
              else STREAM_STRUCT_OFFSET_RECIPIENT this)) = Inr accounts"
    and col: "collect_streams codec accounts [] = Inr streams"
    and res: "result = sort_entries (compare_startTime codec) streams \<or>
      result = filter (\<lambda>stream. canTopup codec (snd stream))
                 (sort_entries (compare_startTime codec) streams) \<or>
      result = filter (\<lambda>stream. \<not> canTopup codec (snd stream))
                 (sort_entries (compare_startTime codec) streams)"
    and all: "(case v_type of Some t \<Rightarrow> t | None \<Rightarrow> Type_All) = Type_All \<Longrightarrow>
      result = sort_entries (compare_startTime codec) streams"
    unfolding get_def Let_def
    by (elim bind_thrown_InrE) (auto split: if_splits)
  from collect_streams_keys [OF col] have
    d: "distinct (map fst streams)"
    and k: "fst ` set streams = (toBase58 \<circ> fst) ` set accounts"
    by simp_all
  from d have ds: "distinct (map fst (sort_entries (compare_startTime codec) streams))"
    by (simp add: sort_entries_keys)
  from res ds show "distinct (map fst result)"
    by (auto simp: distinct_map_filter)
  show "count_list (map fst result) (toBase58 address) = 1"
    if dir: "v_direction = Some Direction_All \<or> v_direction = None"
      and ty: "v_type = Some Type_All \<or> v_type = None"
      and out: "getProgramAccounts this w wallet (STREAM_STRUCT_OFFSET_SENDER this) = Inr outgoing"
      and inc: "getProgramAccounts this w wallet (STREAM_STRUCT_OFFSET_RECIPIENT this) = Inr incoming"
      and a: "address \<in> fst ` (set outgoing \<union> set incoming)"
  proof -
    from dir acc out inc have "accounts = outgoing @ incoming"
      by (auto simp: bind_thrown_def)
    with a k have "toBase58 address \<in> fst ` set streams"
      by auto
    moreover from ty all have "result = sort_entries (compare_startTime codec) streams"
      by auto
    ultimately have "toBase58 address \<in> set (map fst result)"
      by (simp add: sort_entries_keys)
    then have "toBase58 address \<in> set (map fst result)"
      by simp
    with \<open>distinct (map fst result)\<close>
    have "count (mset (map fst result)) (toBase58 address) = 1"
      by (simp only: distinct_count_atmost_1 if_True)
    then show ?thesis
      by (simp only: count_mset)
  qed
qed


text \<open>
  C2, as amended. \<open>get\<close> returns at most one entry per address: the two lookups of
  direction \<open>all\<close> are concatenated and then gathered in an object keyed by address, so
  a stream of which the wallet is both sender and recipient appears exactly once.
\<close>

theorem get_one_entry_per_address:
  "get this codec wallet v_type v_direction w = Inr result \<longrightarrow>
     distinct (map fst result) \<and>
     ((v_direction = Some Direction_All \<or> v_direction = None) \<and>
      (v_type = Some Type_All \<or> v_type = None) \<and>
      getProgramAccounts this w wallet (STREAM_STRUCT_OFFSET_SENDER this) = Inr outgoing \<and>
      getProgramAccounts this w wallet (STREAM_STRUCT_OFFSET_RECIPIENT this) = Inr incoming \<and>
      address \<in> fst ` set outgoing \<and> address \<in> fst ` set incoming
      \<longrightarrow> count_list (map fst result) (toBase58 address) = 1)"
  using get_keys(1) [of this codec wallet v_type v_direction w result]
    get_keys(2) [of this codec wallet v_type v_direction w result outgoing incoming address]
  by blast

lemma sample_lookups:
  "getProgramAccounts sample_client sample_world (PublicKey ''W'')
     (STREAM_STRUCT_OFFSET_SENDER sample_client)
     = Inr [(PublicKey ''A'', sample_stream_A), (PublicKey ''B'', sample_stream_B)]"
  "getProgramAccounts sample_client sample_world (PublicKey ''W'')
     (STREAM_STRUCT_OFFSET_RECIPIENT sample_client)
     = Inr [(PublicKey ''A'', sample_stream_A)]"
  by (simp_all add: sample_client_def sample_ledger_def sample_stream_A_def
      sample_stream_B_def)

lemma sample_get_undefined:
  "get sample_client sample_codec_undefined (PublicKey ''W'') (Some Type_All)
     (Some Direction_All) sample_world
   = Inr [(''A'', sample_stream_A), (''B'', sample_stream_B)]"
  unfolding get_def Let_def
  by (simp add: sample_lookups bind_thrown_def sample_codec_undefined_def sort_entries_def
      compare_startTime_def)

lemma sample_get_start:
  "get sample_client sample_codec_start (PublicKey ''W'') (Some Type_All)
     (Some Direction_All) sample_world
   = Inr [(''A'', sample_stream_A), (''B'', sample_stream_B)]"
  unfolding get_def Let_def
  by (simp add: sample_lookups bind_thrown_def sample_codec_start_def sort_entries_def
      compare_startTime_def sample_stream_A_def sample_stream_B_def)

theorem get_one_entry_per_address_witness:
  "distinct (map fst [(''A'', sample_stream_A), (''B'', sample_stream_B)]) \<and>
   count_list (map fst [(''A'', sample_stream_A), (''B'', sample_stream_B)]) ''A'' = 1"
  using get_one_entry_per_address
    [of sample_client sample_codec_undefined "PublicKey ''W''" "Some Type_All"
      "Some Direction_All" sample_world
      "[(''A'', sample_stream_A), (''B'', sample_stream_B)]"
      "[(PublicKey ''A'', sample_stream_A), (PublicKey ''B'', sample_stream_B)]"
      "[(PublicKey ''A'', sample_stream_A)]" "PublicKey ''A''"]
    sample_get_undefined sample_lookups
  by simp

theorem get_self_stream_counterexample:
  "acc_sender sample_stream_A = PublicKey ''W'' \<and>
   acc_recipient sample_stream_A = PublicKey ''W'' \<and>
   get sample_client sample_codec_undefined (PublicKey ''W'') (Some Type_All)
     (Some Direction_All) sample_world
   = Inr [(''A'', sample_stream_A), (''B'', sample_stream_B)] \<and>
   get sample_client sample_codec_start (PublicKey ''W'') (Some Type_All)
     (Some Direction_All) sample_world
   = Inr [(''A'', sample_stream_A), (''B'', sample_stream_B)] \<and>
   count_list [(''A'', sample_stream_A), (''B'', sample_stream_B)] (''A'', sample_stream_A) \<noteq> 2"
  by (simp add: sample_get_undefined sample_get_start) (simp add: sample_stream_A_def)

section \<open>The Solana client: createMultiple\<close>

lemmas sample_defs =
  sample_client_def sample_multiple_data_def sample_ext_def sample_world_def
  sample_recipient_def

lemmas run_defs =
  createMultiple_batch_def prepareStreamTransaction_def
  Let_def bindA_def liftA_def returnA_def throwA_def PublicKey_new_def
  generate_def BN_new_def falsy_string_def latestBlockhash_def sign_with_def
  partialSign_def submit_def signAllTransactionWithRecipients_def
  sendAndConfirmStreamRawTransaction_def await_item_def

lemma sample_batch_plain:
  "\<exists>ms m2r items w1.
     createMultiple_batch sample_client sample_multiple_data (sample_ext False) sample_world
       = (Inr (ms, m2r, items), w1)"
  by (simp add: sample_defs run_defs)

lemma sample_createMultiple_plain:
  "txs (projr (fst (createMultiple sample_client sample_multiple_data (sample_ext False)
        sample_world))) = [''sigmetaW'', ''sigmetaxxW''] \<and>
   errors (projr (fst (createMultiple sample_client sample_multiple_data (sample_ext False)
        sample_world)))
     = [\<lparr> BatchItemError.recipient = ''R2'', BatchItemError.error = ''rejected'' \<rparr>]"
  by (simp add: createMultiple_def sample_defs run_defs)

lemma sample_createMultiple_native:
  "map signatures (submitted (snd (createMultiple sample_client sample_multiple_data
      (sample_ext True) sample_world)))
   = [[PublicKey ''W''], [PublicKey ''meta'', PublicKey ''W''],
      [PublicKey ''metax'', PublicKey ''W''], [PublicKey ''metaxx'', PublicKey ''W'']]"
  by (simp add: createMultiple_def sample_defs run_defs)



lemma settled_for_eq:
  "list_all2 settled_for items responses \<longleftrightarrow>
   list_all2 (\<lambda>item r. case r of
        Inl e \<Rightarrow> BatchItemError.recipient e = BatchItem.recipient item
      | Inr s \<Rightarrow> BatchItem.recipient s = BatchItem.recipient item \<and>
                 BatchItem.tx s = BatchItem.tx item) items responses"
  by (simp add: settled_for_def [abs_def])

text \<open>
  C3. Once the batch is built, signed and, with \<open>isNative\<close>, the wrap is confirmed (that
  is, once concurrent submission begins), \<open>createMultiple\<close> returns normally whatever the
  answers to the submissions are: every item is submitted and answered, in the order of the
  recipients; every fulfilled submission puts its signature in \<open>txs\<close>, every rejected one
  its error, naming the item's recipient, in \<open>errors\<close>; together they are as many as the
  recipients.
\<close>

theorem createMultiple_collects:
  assumes "createMultiple_batch this data ext w = (Inr (ms, m2r, items), w1)"
  shows "\<exists>responses w'.
     allSettled (map (sendAndConfirmStreamRawTransaction this) items) w1 = (responses, w') \<and>
     createMultiple this data ext w =
       (Inr \<lparr> txs = map BatchItemSuccess.signature [v. Inr v \<leftarrow> responses],
              metadatas = ms,
              metadataToRecipient = m2r,
              errors = [e. Inl e \<leftarrow> responses] \<rparr>, w') \<and>
     map BatchItem.recipient items
       = map IRecipient.recipient (ICreateMultipleStreamData.recipients data) \<and>
     list_all2 (\<lambda>item r. case r of
          Inl e \<Rightarrow> BatchItemError.recipient e = BatchItem.recipient item
        | Inr s \<Rightarrow> BatchItem.recipient s = BatchItem.recipient item \<and>
                   BatchItem.tx s = BatchItem.tx item) items responses \<and>
     length [v. Inr v \<leftarrow> responses] + length [e. Inl e \<leftarrow> responses]
       = length (ICreateMultipleStreamData.recipients data)"
proof -
  obtain responses w' where
    r: "allSettled (map (sendAndConfirmStreamRawTransaction this) items) w1 = (responses, w')"
    by (cases "allSettled (map (sendAndConfirmStreamRawTransaction this) items) w1") auto
  from allSettled_send [OF r] have l: "list_all2 settled_for items responses"
    by simp
  then have len: "length responses = length items"
    by (simp add: list_all2_lengthD)
  have rec: "map BatchItem.recipient items
       = map IRecipient.recipient (ICreateMultipleStreamData.recipients data)"
  proof (cases "ICreateStreamSolanaExt.isNative ext = Some True")
    case False
    from createMultiple_batch_not_native [OF False assms] show ?thesis by simp
  next
    case True
    show ?thesis
    proof (cases "signer_publicKey (ICreateStreamSolanaExt.sender ext)")
      case None
      from createMultiple_batch_no_key [OF None assms] show ?thesis by simp
    next
      case (Some key)
      from createMultiple_batch_native [OF True Some assms] show ?thesis by auto
    qed
  qed
  then have "length items = length (ICreateMultipleStreamData.recipients data)"
    by (metis length_map)
  with assms r l len rec show ?thesis
    unfolding settled_for_eq
    by (simp add: createMultiple_def bindA_def returnA_def Let_def partition_length)
qed


theorem createMultiple_collects_witness:
  "\<exists>ms m2r items w1 (responses :: (BatchItemError + string BatchItemSuccess) list) w'.
     createMultiple_batch sample_client sample_multiple_data (sample_ext False) sample_world
       = (Inr (ms, m2r, items), w1) \<and>
     createMultiple sample_client sample_multiple_data (sample_ext False) sample_world
       = (Inr \<lparr> txs = map BatchItemSuccess.signature [v. Inr v \<leftarrow> responses],
                metadatas = ms,
                metadataToRecipient = m2r,
                errors = [e. Inl e \<leftarrow> responses] \<rparr>, w') \<and>
     map BatchItemSuccess.signature [v. Inr v \<leftarrow> responses] = [''sigmetaW'', ''sigmetaxxW''] \<and>
     [e. Inl e \<leftarrow> responses]
       = [\<lparr> BatchItemError.recipient = ''R2'', BatchItemError.error = ''rejected'' \<rparr>] \<and>
     map BatchItem.recipient items = [''R1'', ''R2'', ''R3'']"
proof -
  from sample_batch_plain obtain ms m2r items w1 where
    b: "createMultiple_batch sample_client sample_multiple_data (sample_ext False) sample_world
       = (Inr (ms, m2r, items), w1)"
    by blast
  from createMultiple_collects [OF b]
  obtain responses :: "(BatchItemError + string BatchItemSuccess) list" and w' where
    c: "createMultiple sample_client sample_multiple_data (sample_ext False) sample_world
       = (Inr \<lparr> txs = map BatchItemSuccess.signature [v. Inr v \<leftarrow> responses],
                metadatas = ms,
                metadataToRecipient = m2r,
                errors = [e. Inl e \<leftarrow> responses] \<rparr>, w')"
    and r: "map BatchItem.recipient items
       = map IRecipient.recipient (ICreateMultipleStreamData.recipients sample_multiple_data)"
    by (elim exE conjE)
  from c sample_createMultiple_plain have
    v: "map BatchItemSuccess.signature [v. Inr v \<leftarrow> responses] = [''sigmetaW'', ''sigmetaxxW'']"
    "[e. Inl e \<leftarrow> responses]
       = [\<lparr> BatchItemError.recipient = ''R2'', BatchItemError.error = ''rejected'' \<rparr>]"
    by simp_all
  from r have "map BatchItem.recipient items = [''R1'', ''R2'', ''R3'']"
    by (simp add: sample_multiple_data_def sample_recipient_def)
  with b c v show ?thesis
    by (intro exI conjI)
qed


text \<open>
  C4. With \<open>isNative\<close>, either \<open>createMultiple\<close> fails before submitting anything, or
  the first transaction it submits is the wrap transaction: the instructions that
  \<open>prepareWrappedAccount\<close> gives for the sender and the sum of the recipients' amounts, paid
  and signed by the sender. Creation transactions are submitted only after it, and only
  when the cluster confirmed it; when the cluster rejects it, the call throws the rejection,
  tagged with the sender's address, and submits nothing else.
\<close>

theorem createMultiple_wrap_first:
  assumes nat: "ICreateStreamSolanaExt.isNative ext = Some True"
    and run: "createMultiple (this :: ('i, 'x, 'a) SolanaStreamClient) data ext w = (res, w')"
  shows "(submitted w' = submitted w \<and> (\<exists>e. res = Inl e)) \<or>
    (\<exists>key nis (hash :: blockhash_info) (w0 :: 'i world) creations.
       signer_publicKey (ICreateStreamSolanaExt.sender ext) = Some key \<and>
       submitted w0 = submitted w \<and>
       prepareWrappedAccount this w0 key
         (sum_list (map IRecipient.amount (ICreateMultipleStreamData.recipients data))) = Inr nis \<and>
       submitted w'
         = submitted w @
           sign_with (ICreateStreamSolanaExt.sender ext)
             \<lparr> feePayer = key,
               recentBlockhash = blockhash hash,
               tx_lastValidBlockHeight = lastValidBlockHeight hash,
               instructions = nis,
               signatures = [] \<rparr> # creations \<and>
       (\<forall>t \<in> set creations.
          \<exists>d a. instructions t = [createStreamInstruction d (programId this) a]) \<and>
       ((\<exists>e. sendAndConfirmRawTransaction this w0
               (sign_with (ICreateStreamSolanaExt.sender ext)
                  \<lparr> feePayer = key,
                    recentBlockhash = blockhash hash,
                    tx_lastValidBlockHeight = lastValidBlockHeight hash,
                    instructions = nis,
                    signatures = [] \<rparr>) = Inl e \<and>
             creations = [] \<and>
             res = Inl (NonError (Inl \<lparr> BatchItemError.recipient = toBase58 key,
                                         BatchItemError.error = error_text this e \<rparr>))) \<or>
        (\<exists>s resp.
             sendAndConfirmRawTransaction this w0
               (sign_with (ICreateStreamSolanaExt.sender ext)
                  \<lparr> feePayer = key,
                    recentBlockhash = blockhash hash,
                    tx_lastValidBlockHeight = lastValidBlockHeight hash,
                    instructions = nis,
                    signatures = [] \<rparr>) = Inr s \<and>
             res = Inr resp \<and>
             length creations \<le> length (ICreateMultipleStreamData.recipients data))))"
    (is "?quiet \<or> ?wrapped")
proof -
  obtain r w1 where b: "createMultiple_batch this data ext w = (r, w1)"
    by (cases "createMultiple_batch this data ext w") auto
  show ?thesis
  proof (cases "signer_publicKey (ICreateStreamSolanaExt.sender ext)")
    case None
    from createMultiple_batch_no_key [OF None b] run b have "?quiet"
      by (auto simp: createMultiple_def bindA_def)
    then show ?thesis ..
  next
    case (Some key)
    from createMultiple_batch_native [OF nat Some b]
    show ?thesis
    proof (elim disjE exE conjE)
      fix e
      assume "submitted w1 = submitted w" "r = Inl e"
      with run b have "?quiet"
        by (auto simp: createMultiple_def bindA_def)
      then show ?thesis ..
    next
      fix nis hash w0 e
      assume "submitted w0 = submitted w"
        "prepareWrappedAccount this w0 key
           (sum_list (map IRecipient.amount (ICreateMultipleStreamData.recipients data))) = Inr nis"
        "submitted w1
           = submitted w @ [wrap_transaction (ICreateStreamSolanaExt.sender ext) key nis hash]"
        "sendAndConfirmRawTransaction this w0
           (wrap_transaction (ICreateStreamSolanaExt.sender ext) key nis hash) = Inl e"
        "r = Inl (NonError (Inl \<lparr> BatchItemError.recipient = toBase58 key,
                                   BatchItemError.error = error_text this e \<rparr>))"
      with run b Some have "?wrapped"
        unfolding wrap_transaction_def
        apply -
        apply (rule exI [of _ key], rule exI [of _ nis], rule exI [of _ hash],
            rule exI [of _ w0], rule exI [of _ "[]"])
        apply (auto simp: createMultiple_def bindA_def)
        done
      then show ?thesis ..
    next
      fix nis hash w0 s ms m2r items
      assume a: "submitted w0 = submitted w"
        "prepareWrappedAccount this w0 key
           (sum_list (map IRecipient.amount (ICreateMultipleStreamData.recipients data))) = Inr nis"
        "submitted w1
           = submitted w @ [wrap_transaction (ICreateStreamSolanaExt.sender ext) key nis hash]"
        "sendAndConfirmRawTransaction this w0
           (wrap_transaction (ICreateStreamSolanaExt.sender ext) key nis hash) = Inr s"
        and r: "r = Inr (ms, m2r, items)"
        and items: "map BatchItem.recipient items
           = map IRecipient.recipient (ICreateMultipleStreamData.recipients data)"
          "list_all (creation_item this) items"
      obtain responses w2 where
        rs: "allSettled (map (sendAndConfirmStreamRawTransaction this) items) w1 = (responses, w2)"
        by (cases "allSettled (map (sendAndConfirmStreamRawTransaction this) items) w1") auto
      define creations where
        "creations = [BatchItem.tx item. item \<leftarrow> items, serialize this (BatchItem.tx item) = None]"
      from allSettled_send [OF rs] have log2: "submitted w2 = submitted w1 @ creations"
        by (simp add: creations_def)
      from run b r rs have res: "w' = w2" "\<exists>resp. res = Inr resp"
        by (auto simp: createMultiple_def bindA_def returnA_def Let_def)
      from items(2) have cr: "\<forall>t \<in> set creations.
          \<exists>d a. instructions t = [createStreamInstruction d (programId this) a]"
        by (auto simp: creations_def list_all_iff creation_item_def)
      have "length creations \<le> length items"
        unfolding creations_def by (induction items) auto
      with items(1) have len: "length creations \<le> length (ICreateMultipleStreamData.recipients data)"
        by (metis length_map)
      from a log2 res cr len Some have "?wrapped"
        unfolding wrap_transaction_def
        apply -
        apply (rule exI [of _ key], rule exI [of _ nis], rule exI [of _ hash],
            rule exI [of _ w0], rule exI [of _ creations])
        apply auto
        done
      then show ?thesis ..
    qed
  qed
qed

theorem createMultiple_wrap_first_witness:
  "\<exists>res w' (hash :: blockhash_info) creations.
     ICreateStreamSolanaExt.isNative (sample_ext True) = Some True \<and>
     createMultiple sample_client sample_multiple_data (sample_ext True) sample_world
       = (res, w') \<and>
     submitted w'
       = \<lparr> feePayer = PublicKey ''W'',
           recentBlockhash = blockhash hash,
           tx_lastValidBlockHeight = lastValidBlockHeight hash,
           instructions = [OtherInstruction ''wrap''],
           signatures = [PublicKey ''W''] \<rparr> # creations \<and>
     length creations = 3 \<and>
     (\<forall>t \<in> set creations.
        \<exists>d a. instructions t = [createStreamInstruction d (PublicKey ''strm'') a])"
proof -
  obtain res w' where
    run: "createMultiple sample_client sample_multiple_data (sample_ext True) sample_world
       = (res, w')"
    by (cases "createMultiple sample_client sample_multiple_data (sample_ext True) sample_world")
      auto
  have nat: "ICreateStreamSolanaExt.isNative (sample_ext True) = Some True"
    by (simp add: sample_ext_def)
  from sample_createMultiple_native run have
    sigs: "map signatures (submitted w')
       = [[PublicKey ''W''], [PublicKey ''meta'', PublicKey ''W''],
          [PublicKey ''metax'', PublicKey ''W''], [PublicKey ''metaxx'', PublicKey ''W'']]"
    by simp
  then have "submitted w' \<noteq> submitted sample_world"
    by (auto simp: sample_world_def)
  with createMultiple_wrap_first [OF nat run] obtain key nis hash w0 creations where
    k: "signer_publicKey (ICreateStreamSolanaExt.sender (sample_ext True)) = Some key"
    and n: "prepareWrappedAccount sample_client w0 key
         (sum_list (map IRecipient.amount
            (ICreateMultipleStreamData.recipients sample_multiple_data))) = Inr nis"
    and l: "submitted w'
         = submitted sample_world @
           sign_with (ICreateStreamSolanaExt.sender (sample_ext True))
             \<lparr> feePayer = key,
               recentBlockhash = blockhash (hash :: blockhash_info),
               tx_lastValidBlockHeight = lastValidBlockHeight hash,
               instructions = nis,
               signatures = [] \<rparr> # creations"
    and c: "\<forall>t \<in> set creations.
          \<exists>d a. instructions t = [createStreamInstruction d (programId sample_client) a]"
    by blast
  from k have key: "key = PublicKey ''W''"
    by (simp add: sample_ext_def)
  from n have nis: "nis = [OtherInstruction ''wrap'']"
    by (auto simp: sample_client_def)
  from l key nis have log: "submitted w'
       = \<lparr> feePayer = PublicKey ''W'',
           recentBlockhash = blockhash hash,
           tx_lastValidBlockHeight = lastValidBlockHeight hash,
           instructions = [OtherInstruction ''wrap''],
           signatures = [PublicKey ''W''] \<rparr> # creations"
    by (simp add: sample_world_def sample_ext_def sign_with_def partialSign_def)
  with sigs have "length creations = 3"
    by (metis length_map length_Cons list.size(3) numeral_3_eq_3 nat.inject)
  moreover from c have "\<forall>t \<in> set creations.
        \<exists>d a. instructions t = [createStreamInstruction d (PublicKey ''strm'') a]"
    by (simp add: sample_client_def)
  ultimately show ?thesis
    using nat run log by (intro exI conjI)
qed

section \<open>Numbers: rounding to a double\<close>





























section \<open>Big numbers: the exponent range\<close>














section \<open>The amount conversion \<open>getBN\<close>\<close>








text \<open>
  C6, as amended. \<open>getBN\<close> fails exactly when \<open>decimals\<close> is a finite number that
  bignumber.js does not read as an integer, and then with the library's error for a
  non-integer exponent. It does not fail for a negative integer \<open>decimals\<close>, and for a
  value that is not finite it returns the big number \<open>NaN\<close>.
\<close>

theorem getBN_failure:
  "((\<exists>e. getBN v decimals = (Inl e :: 'x thrown + BigNumber))
      \<longleftrightarrow> (\<exists>r. decimals = Fin r \<and> \<not> is_integer (BigNumber_value r)))
   \<and> (\<forall>e. getBN v decimals = (Inl e :: 'x thrown + BigNumber)
          \<longrightarrow> e = Err (Error ''[BigNumber Error] Exponent not an integer''))
   \<and> ((v = NaN \<or> v = PInf \<or> v = NInf)
          \<and> (\<forall>r. decimals = Fin r \<longrightarrow> is_integer (BigNumber_value r))
        \<longrightarrow> getBN v decimals = (Inr BigNaN :: 'x thrown + BigNumber))"
proof (intro conjI allI impI)
  show "(\<exists>e. getBN v decimals = (Inl e :: 'x thrown + BigNumber))
      \<longleftrightarrow> (\<exists>r. decimals = Fin r \<and> \<not> is_integer (BigNumber_value r))"
    unfolding getBN_def Let_def bind_thrown_def
    by (cases decimals) (simp_all split: sum.splits)
next
  fix e :: "'x thrown"
  assume "getBN v decimals = Inl e"
  then show "e = Err (Error ''[BigNumber Error] Exponent not an integer'')"
    unfolding getBN_def Let_def bind_thrown_def
    by (cases decimals) (simp_all split: sum.splits if_splits)
next
  assume a: "(v = NaN \<or> v = PInf \<or> v = NInf)
      \<and> (\<forall>r. decimals = Fin r \<longrightarrow> is_integer (BigNumber_value r))"
  then have "\<exists>p. ten_pow (BigNumber_of_number decimals) = (Inr p :: 'x thrown + BigNumber)"
    by (cases decimals) auto
  then obtain p where p: "ten_pow (BigNumber_of_number decimals) = (Inr p :: 'x thrown + BigNumber)"
    by (elim exE)
  from a have "v = NaN \<or> v = PInf \<or> v = NInf"
    by simp
  then show "getBN v decimals = (Inr BigNaN :: 'x thrown + BigNumber)"
    unfolding getBN_def Let_def bind_thrown_def
    by (elim disjE) (simp_all add: p)
qed

theorem getBN_failure_witness:
  "(\<exists>e. getBN (Fin 1) (Fin (1 / 2)) = (Inl e :: unit thrown + BigNumber))
   \<and> getBN NaN (Fin 2) = (Inr BigNaN :: unit thrown + BigNumber)"
proof
  have "\<not> is_integer (BigNumber_value (1 / 2))"
    by code_simp
  then have "\<exists>r. Fin (1 / 2) = Fin r \<and> \<not> is_integer (BigNumber_value r)"
    by blast
  then show "\<exists>e. getBN (Fin 1) (Fin (1 / 2)) = (Inl e :: unit thrown + BigNumber)"
    using getBN_failure [of "Fin 1" "Fin (1 / 2)", where ?'x = unit] by blast
next
  have "is_integer (BigNumber_value 2)"
    by code_simp
  then have "\<forall>r. Fin 2 = Fin r \<longrightarrow> is_integer (BigNumber_value r)"
    by simp
  then show "getBN NaN (Fin 2) = (Inr BigNaN :: unit thrown + BigNumber)"
    using getBN_failure [of NaN "Fin 2", where ?'x = unit] by blast
qed

theorem getBN_negative_decimals_counterexample:
  "getBN (Fin 1) (Fin (- 1)) = (Inr (Big (1 / 10)) :: unit thrown + BigNumber)
   \<and> getBN PInf (Fin 0) = (Inr BigNaN :: unit thrown + BigNumber)"
  by code_simp

section \<open>The round trip through \<open>getBN\<close> and \<open>getNumberFromBN\<close>\<close>

















end
